theory Spec2Isabelle
  imports Main "HOL-Library.Char_ord" "HOL-Library.List_Lexorder" "HOL-Library.Monad_Syntax"
    "HOL-Library.Multiset"
begin

section \<open>Launch records and data frames\<close>

text \<open>
  One row of the CSV read by \<^verbatim>\<open>spacex_dash_app.py\<close>. The four fields are the four columns
  the script names: \<^verbatim>\<open>'Launch Site'\<close>, \<^verbatim>\<open>'class'\<close>, \<^verbatim>\<open>'Payload Mass (kg)'\<close> and
  \<^verbatim>\<open>'Booster Version Category'\<close>. A cell that pandas holds as missing (NaN) is \<open>None\<close>.
  The payload column is numeric; its values are taken from any linear order \<open>'p\<close>
  (the float64 values other than NaN are one, Python's integers another), and every
  comparison the script makes is the order's. The strings of the site column are
  ordered lexicographically, as Python orders \<^verbatim>\<open>str\<close>. A data frame is the list of its
  rows, in index order; by the type of a row it has the four columns.
\<close>

record 'p launch =
  Launch_Site :: "string option"
  Class :: "int option"
  Payload_Mass :: "'p option"
  Booster_Version_Category :: "string option"

type_synonym 'p frame = "'p launch list"

definition isna :: "'a option \<Rightarrow> bool" where
  "isna v = (v = None)"

section \<open>Data loading (lines 50 to 61)\<close>

text \<open>
  What the module's top level can raise while loading: the \<^verbatim>\<open>FileNotFoundError\<close> of
  line 55, which the script raises itself (the spec calls it DataUnavailable); an error
  of \<^verbatim>\<open>pd.read_csv\<close> on a path that exists (line 53); the \<^verbatim>\<open>KeyError\<close> of \<^verbatim>\<open>dropna\<close> when a
  column of its subset is not in the table (line 61), which carries the absent names.
\<close>

datatype read_error =
  EmptyDataError | ParserError | IsADirectoryError | PermissionError | UnicodeDecodeError

datatype error = FileNotFoundError string | ReadError read_error | KeyError "string list"

text \<open>
  The environment is a map from variable names to values. The file system maps a path
  to what is there, as \<^verbatim>\<open>pd.read_csv\<close> finds it: something it raises on (an empty file,
  malformed rows, a directory, ...), or a table with its header (the column names)
  and its records. A path with nothing there has no entry. The parsing itself belongs
  to pandas. A record gives the values in the four columns the script names.
\<close>

datatype 'p content = Unreadable read_error | Table "string list" "'p frame"

type_synonym environ = "string \<rightharpoonup> string"
type_synonym 'p files = "string \<rightharpoonup> 'p content"

text \<open>Line 50: \<^verbatim>\<open>os.environ.get("SPACEX_DASH_CSV", "spacex_launch_dash.csv")\<close>.\<close>

definition CSV_PATH :: "environ \<Rightarrow> string" where
  "CSV_PATH environ =
     (case environ ''SPACEX_DASH_CSV'' of
        Some p \<Rightarrow> p
      | None \<Rightarrow> ''spacex_launch_dash.csv'')"

text \<open>\<^verbatim>\<open>os.path.exists\<close> holds of whatever is at the path, a directory too.\<close>

definition os_path_exists :: "'p files \<Rightarrow> string \<Rightarrow> bool" where
  "os_path_exists files path = (files path \<noteq> None)"

definition read_csv :: "'p files \<Rightarrow> string \<Rightarrow> error + (string list \<times> 'p frame)" where
  "read_csv files path =
     (case files path of
        None \<Rightarrow> Inl (FileNotFoundError path)
      | Some (Unreadable e) \<Rightarrow> Inl (ReadError e)
      | Some (Table columns rows) \<Rightarrow> Inr (columns, rows))"

text \<open>
  \<^verbatim>\<open>DataFrame.dropna(subset=[...])\<close> with the default \<^verbatim>\<open>how='any'\<close>. It first looks the
  names of the subset up among the columns and raises \<^verbatim>\<open>KeyError\<close> with those it does not
  find; then a row goes when any of the named columns is missing in it. A column of
  the subset is given by its name and its test \<open>isna \<circ> column\<close>.
\<close>

definition dropna :: "(string \<times> ('r \<Rightarrow> bool)) list \<Rightarrow> string list \<Rightarrow> 'r list \<Rightarrow> error + 'r list" where
  "dropna subset_cols columns df =
     (case filter (\<lambda>name. name \<notin> set columns) (map fst subset_cols) of
        [] \<Rightarrow> Inr (filter (\<lambda>r. \<not> list_ex (\<lambda>(name, missing). missing r) subset_cols) df)
      | absent # others \<Rightarrow> Inl (KeyError (absent # others)))"

text \<open>
  Lines 52 to 61: the existence test, the read, and the cleanup that rebinds
  \<^verbatim>\<open>spacex_df\<close> to a fresh copy of the rows that are complete in the three columns.
\<close>

definition load :: "'p files \<Rightarrow> string \<Rightarrow> error + 'p frame" where
  "load files path =
     (if os_path_exists files path then
        (case read_csv files path of
           Inl e \<Rightarrow> Inl e
         | Inr (columns, spacex_df) \<Rightarrow>
             dropna [(''Launch Site'', isna \<circ> Launch_Site), (''class'', isna \<circ> Class),
                     (''Payload Mass (kg)'', isna \<circ> Payload_Mass)] columns spacex_df)
      else Inl (FileNotFoundError path))"

section \<open>Objects and the store\<close>

text \<open>
  pandas objects are mutable and Python variables hold references to them, so the
  callbacks run on a store: a list of objects, an object's address being its index.
  A new object goes to the end of the list. A data frame is stored as its rows, a
  boolean Series (a mask) as its values in index order.
\<close>

datatype 'p obj = DataFrame "'p frame" | Series "bool list"

type_synonym 'p heap = "'p obj list"

definition alloc :: "'p obj \<Rightarrow> 'p heap \<Rightarrow> nat \<times> 'p heap" where
  "alloc v h = (length h, h @ [v])"

text \<open>
  Reading a reference as a frame or as a mask. There is no value (Python would raise)
  where the address is not allocated or holds an object of the other kind.
\<close>

definition get_frame :: "'p heap \<Rightarrow> nat \<Rightarrow> 'p frame option" where
  "get_frame h a =
     (if a < length h then (case h ! a of DataFrame rows \<Rightarrow> Some rows | Series _ \<Rightarrow> None)
      else None)"

definition get_series :: "'p heap \<Rightarrow> nat \<Rightarrow> bool list option" where
  "get_series h a =
     (if a < length h then (case h ! a of Series bs \<Rightarrow> Some bs | DataFrame _ \<Rightarrow> None)
      else None)"

section \<open>The pandas operations the script calls\<close>

text \<open>Comparison of numbers where either side may be NaN: false as soon as one is.\<close>

definition nan_le :: "('a :: linorder) option \<Rightarrow> 'a option \<Rightarrow> bool" where
  "nan_le a b = (case a of None \<Rightarrow> False | Some x \<Rightarrow> (case b of None \<Rightarrow> False | Some y \<Rightarrow> x \<le> y))"

text \<open>
  \<^verbatim>\<open>df[col] >= v\<close>, \<^verbatim>\<open>df[col] <= v\<close> and \<^verbatim>\<open>df[col] == v\<close>: each reads the frame and returns a
  new mask, one boolean per row; a missing cell compares false.
\<close>

definition col_ge ::
  "nat \<Rightarrow> ('p launch \<Rightarrow> ('a :: linorder) option) \<Rightarrow> 'a option \<Rightarrow> 'p heap \<Rightarrow> (nat \<times> 'p heap) option" where
  "col_ge df col v h =
     do { rows \<leftarrow> get_frame h df;
          Some (alloc (Series (map (\<lambda>r. nan_le v (col r)) rows)) h) }"

definition col_le ::
  "nat \<Rightarrow> ('p launch \<Rightarrow> ('a :: linorder) option) \<Rightarrow> 'a option \<Rightarrow> 'p heap \<Rightarrow> (nat \<times> 'p heap) option" where
  "col_le df col v h =
     do { rows \<leftarrow> get_frame h df;
          Some (alloc (Series (map (\<lambda>r. nan_le (col r) v) rows)) h) }"

definition col_eq ::
  "nat \<Rightarrow> ('p launch \<Rightarrow> 'a option) \<Rightarrow> 'a \<Rightarrow> 'p heap \<Rightarrow> (nat \<times> 'p heap) option" where
  "col_eq df col v h =
     do { rows \<leftarrow> get_frame h df;
          Some (alloc (Series (map (\<lambda>r. col r = Some v) rows)) h) }"

text \<open>
  \<^verbatim>\<open>a & b\<close> returns a new mask; \<^verbatim>\<open>a &= b\<close> overwrites the object \<open>a\<close> refers to. The
  two masks of the script have the index of the one frame, so their lengths agree.
\<close>

definition series_and :: "nat \<Rightarrow> nat \<Rightarrow> 'p heap \<Rightarrow> (nat \<times> 'p heap) option" where
  "series_and a b h =
     do { xs \<leftarrow> get_series h a;
          ys \<leftarrow> get_series h b;
          if length xs = length ys then Some (alloc (Series (map2 (\<and>) xs ys)) h) else None }"

definition series_iand :: "nat \<Rightarrow> nat \<Rightarrow> 'p heap \<Rightarrow> 'p heap option" where
  "series_iand a b h =
     do { xs \<leftarrow> get_series h a;
          ys \<leftarrow> get_series h b;
          if length xs = length ys then Some (h[a := Series (map2 (\<and>) xs ys)]) else None }"

text \<open>
  \<^verbatim>\<open>df[mask]\<close>: a new frame of the rows whose mask value is true, in order.
  \<^verbatim>\<open>df.copy()\<close>: a new frame with the same rows.
\<close>

definition getitem_mask :: "nat \<Rightarrow> nat \<Rightarrow> 'p heap \<Rightarrow> (nat \<times> 'p heap) option" where
  "getitem_mask df m h =
     do { rows \<leftarrow> get_frame h df;
          keep \<leftarrow> get_series h m;
          if length keep = length rows
          then Some (alloc (DataFrame (map fst (filter snd (zip rows keep)))) h)
          else None }"

definition frame_copy :: "nat \<Rightarrow> 'p heap \<Rightarrow> (nat \<times> 'p heap) option" where
  "frame_copy df h = do { rows \<leftarrow> get_frame h df; Some (alloc (DataFrame rows) h) }"

text \<open>\<^verbatim>\<open>Series.unique()\<close>: the distinct values in order of first appearance.\<close>

definition unique :: "'a list \<Rightarrow> 'a list" where
  "unique xs = rev (remdups (rev xs))"

text \<open>
  \<^verbatim>\<open>df.groupby(key)[col].count()\<close> with the defaults \<^verbatim>\<open>sort=True\<close> and \<^verbatim>\<open>dropna=True\<close>: one
  entry per distinct key that is not missing, keys ascending, each with the number of
  rows of the group whose \<open>col\<close> is not missing. \<^verbatim>\<open>reset_index\<close> turns the result into a
  two-column frame, here the list of pairs.
\<close>

definition groupby_count ::
  "nat \<Rightarrow> ('p launch \<Rightarrow> ('k :: linorder) option) \<Rightarrow> ('p launch \<Rightarrow> 'v option) \<Rightarrow> 'p heap
     \<Rightarrow> ('k \<times> nat) list option" where
  "groupby_count df key col h =
     do { rows \<leftarrow> get_frame h df;
          Some (map (\<lambda>k. (k, length (filter (\<lambda>r. key r = Some k \<and> \<not> isna (col r)) rows)))
                  (sort (unique (List.map_filter key rows)))) }"

text \<open>
  \<^verbatim>\<open>Series.min()\<close> and \<^verbatim>\<open>Series.max()\<close> skip missing values and give NaN on a column with
  none left.
\<close>

definition series_min :: "('a :: linorder) option list \<Rightarrow> 'a option" where
  "series_min vs = (case List.map_filter id vs of [] \<Rightarrow> None | v # rest \<Rightarrow> Some (fold min rest v))"

definition series_max :: "('a :: linorder) option list \<Rightarrow> 'a option" where
  "series_max vs = (case List.map_filter id vs of [] \<Rightarrow> None | v # rest \<Rightarrow> Some (fold max rest v))"

section \<open>Module state and start-up (lines 50 to 71)\<close>

text \<open>
  The module's globals that the callbacks and the layout read: the reference
  \<^verbatim>\<open>spacex_df\<close>, the slider bounds and the site list, with the store they live in.
\<close>

record 'p state =
  heap :: "'p heap"
  spacex_df :: nat
  payload_min :: "'p option"
  payload_max :: "'p option"
  launch_sites :: "string list"

text \<open>
  Python's \<^verbatim>\<open>float\<close> of lines 64 and 65 is a parameter of the start-up: the conversion of
  a value of the payload column to a float. It is the identity on a float64 column;
  on Python integers it is \<open>float_of_int\<close> below, which rounds to 53 significant bits,
  ties to even (the \<^verbatim>\<open>OverflowError\<close> of integers from \<open>2 ^ 1024\<close> on is left out).
\<close>

fun bit_length :: "nat \<Rightarrow> nat" where
  "bit_length n = (if n = 0 then 0 else Suc (bit_length (n div 2)))"

definition float_of_int :: "int \<Rightarrow> int" where
  "float_of_int n =
     (let m = nat \<bar>n\<bar>;
          shift = bit_length m - 53;
          q = m div 2 ^ shift;
          r = m mod 2 ^ shift;
          rounded = (if 2 ^ shift < 2 * r \<or> (2 * r = 2 ^ shift \<and> odd q) then q + 1 else q)
      in sgn n * int (rounded * 2 ^ shift))"

text \<open>
  Running the module's top level. The store starts with the one object \<^verbatim>\<open>spacex_df\<close>
  ends up bound to (the frames of lines 53 and 61 that the rebinding leaves behind are
  unreachable). The slider bounds are \<^verbatim>\<open>float\<close> of the column's minimum and maximum,
  NaN on a table without records. After the cleanup no site is missing, so \<^verbatim>\<open>sorted\<close>
  compares strings only.
\<close>

definition startup ::
  "('p \<Rightarrow> 'p) \<Rightarrow> environ \<Rightarrow> ('p :: linorder) files \<Rightarrow> error + 'p state" where
  "startup float environ files =
     (case load files (CSV_PATH environ) of
        Inl e \<Rightarrow> Inl e
      | Inr df \<Rightarrow>
          (case alloc (DataFrame df) [] of (a, h) \<Rightarrow>
             Inr \<lparr>heap = h, spacex_df = a,
                  payload_min = map_option float (series_min (map Payload_Mass df)),
                  payload_max = map_option float (series_max (map Payload_Mass df)),
                  launch_sites = sort (unique (List.map_filter Launch_Site df))\<rparr>))"

text \<open>Lines 69 to 71: the (label, value) pairs of the site drop-down.\<close>

definition dropdown_options :: "'p state \<Rightarrow> (string \<times> string) list" where
  "dropdown_options s = (''All Sites'', ''ALL'') # map (\<lambda>site. (site, site)) (launch_sites s)"

section \<open>Figures\<close>

text \<open>
  A pie is the \<^verbatim>\<open>names\<close> and \<^verbatim>\<open>values\<close> columns of the frame passed. A pie label is a
  string or, for an outcome the renaming of line 157 does not cover, the number itself.
\<close>

datatype name = Str string | Num int

record figure =
  fig_title :: string
  fig_margin :: "(nat \<times> nat \<times> nat \<times> nat) option"

record pie_figure = figure +
  pie_values :: "nat list"
  pie_names :: "name list"

definition px_pie :: "(name \<times> nat) list \<Rightarrow> string \<Rightarrow> pie_figure" where
  "px_pie data_frame title =
     \<lparr>fig_title = title, fig_margin = None,
      pie_values = map snd data_frame, pie_names = map fst data_frame\<rparr>"

text \<open>
  A scatter figure is a list of traces, each with a name and its points: the \<^verbatim>\<open>x\<close> and \<^verbatim>\<open>y\<close>
  values and the \<^verbatim>\<open>hover_data\<close> value of every point, in order.
\<close>

record 'p trace =
  trace_name :: "string option"
  trace_x :: "'p option list"
  trace_y :: "int option list"
  trace_hover :: "string option list"

record 'p scatter_figure = figure +
  traces :: "'p trace list"
  tickvals :: "int list"
  ticktext :: "string list"

text \<open>The x and the y values of all points of a figure, trace after trace.\<close>

definition scatter_x :: "'p scatter_figure \<Rightarrow> 'p option list" where
  "scatter_x fig = concat (map trace_x (traces fig))"

definition scatter_y :: "'p scatter_figure \<Rightarrow> int option list" where
  "scatter_y fig = concat (map trace_y (traces fig))"

text \<open>
  \<^verbatim>\<open>px.scatter(df, x='Payload Mass (kg)', y='class', color='Booster Version Category',
  hover_data=['Launch Site'], title=...)\<close>. The colour column holds strings, so plotly
  treats it as a category and makes one trace per group of rows. Its grouping takes
  the distinct values of the column, a missing one among them, in order of first
  appearance; when there is exactly one, the whole frame is the one group; otherwise it
  groups the frame by the column, which leaves out the rows where it is missing, and
  takes the groups in that order. Within a group the rows keep their order.
  (plotly raises when the frame has no column of that name; a frame here has the four
  columns by its type.)
\<close>

definition get_groups :: "'p frame \<Rightarrow> (string option \<times> 'p frame) list" where
  "get_groups df =
     (case unique (map Booster_Version_Category df) of
        [category] \<Rightarrow> [(category, df)]
      | uniques \<Rightarrow>
          map (\<lambda>category.
                 (Some category, filter (\<lambda>r. Booster_Version_Category r = Some category) df))
            (List.map_filter id uniques))"

definition trace_of :: "string option \<Rightarrow> 'p frame \<Rightarrow> 'p trace" where
  "trace_of category rows =
     \<lparr>trace_name = category,
      trace_x = map Payload_Mass rows,
      trace_y = map Class rows,
      trace_hover = map Launch_Site rows\<rparr>"

definition px_scatter :: "'p frame \<Rightarrow> string \<Rightarrow> 'p scatter_figure" where
  "px_scatter data_frame title =
     \<lparr>fig_title = title, fig_margin = None,
      traces = map (\<lambda>(category, rows). trace_of category rows) (get_groups data_frame),
      tickvals = [], ticktext = []\<rparr>"

text \<open>\<^verbatim>\<open>fig.update_layout(margin=dict(l=.., r=.., t=.., b=..))\<close>, the margin as (l, r, t, b).\<close>

definition update_layout :: "nat \<times> nat \<times> nat \<times> nat \<Rightarrow> 'a figure_scheme \<Rightarrow> 'a figure_scheme" where
  "update_layout m fig = fig\<lparr>fig_margin := Some m\<rparr>"

definition update_yaxes :: "int list \<Rightarrow> string list \<Rightarrow> 'p scatter_figure \<Rightarrow> 'p scatter_figure" where
  "update_yaxes vals texts fig = fig\<lparr>tickvals := vals, ticktext := texts\<rparr>"

text \<open>Line 157: \<^verbatim>\<open>.rename(index={0: 'Failure', 1: 'Success'})\<close>; other labels stay.\<close>

definition rename_index :: "int \<Rightarrow> name" where
  "rename_index c = (if c = 0 then Str ''Failure'' else if c = 1 then Str ''Success'' else Num c)"

section \<open>The callbacks\<close>

text \<open>
  \<^verbatim>\<open>update_pie\<close>, lines 138 to 169. Each branch builds a mask, selects the rows, groups
  and counts them, and makes the pie. The callback returns the figure; the store it
  leaves is returned with it.
\<close>

definition update_pie :: "string \<Rightarrow> 'p state \<Rightarrow> (pie_figure \<times> 'p state) option" where
  "update_pie selected_site s =
     (if selected_site = ''ALL'' then
        do { (is_success, h1) \<leftarrow> col_eq (spacex_df s) Class 1 (heap s);
             (successes, h2) \<leftarrow> getitem_mask (spacex_df s) is_success h1;
             counts \<leftarrow> groupby_count successes Launch_Site Class h2;
             let successes_by_site = map (\<lambda>(site, n). (Str site, n)) counts;
                 fig = px_pie successes_by_site ''Total Successful Launches by Site''
             in Some (update_layout (20, 20, 60, 20) fig, s\<lparr>heap := h2\<rparr>) }
      else
        do { (at_site, h1) \<leftarrow> col_eq (spacex_df s) Launch_Site selected_site (heap s);
             (site_df, h2) \<leftarrow> getitem_mask (spacex_df s) at_site h1;
             counts \<leftarrow> groupby_count site_df Class Class h2;
             let outcome_counts = map (\<lambda>(c, n). (rename_index c, n)) counts;
                 fig = px_pie outcome_counts (''Launch Outcomes for '' @ selected_site)
             in Some (update_layout (20, 20, 60, 20) fig, s\<lparr>heap := h2\<rparr>) })"

text \<open>
  \<^verbatim>\<open>update_scatter\<close>, lines 178 to 207, in two parts. The first is lines 179 to 186, up
  to the binding of \<^verbatim>\<open>filtered\<close>: the range mask, the in-place \<^verbatim>\<open>mask &= ...\<close> when a site
  is selected, the selection and its copy. It returns the reference \<^verbatim>\<open>filtered\<close>. A
  bound of the range may be NaN, as the slider bounds of an empty table are.
\<close>

definition scatter_filtered ::
  "string \<Rightarrow> ('p :: linorder) option \<times> 'p option \<Rightarrow> 'p state \<Rightarrow> (nat \<times> 'p state) option" where
  "scatter_filtered selected_site payload_range s =
     (case payload_range of (lo, hi) \<Rightarrow>
        do { (ge_lo, h1) \<leftarrow> col_ge (spacex_df s) Payload_Mass lo (heap s);
             (le_hi, h2) \<leftarrow> col_le (spacex_df s) Payload_Mass hi h1;
             (mask, h3) \<leftarrow> series_and ge_lo le_hi h2;
             h5 \<leftarrow> (if selected_site \<noteq> ''ALL''
                    then do { (at_site, h4) \<leftarrow> col_eq (spacex_df s) Launch_Site selected_site h3;
                              series_iand mask at_site h4 }
                    else Some h3);
             (selected, h6) \<leftarrow> getitem_mask (spacex_df s) mask h5;
             (filtered, h7) \<leftarrow> frame_copy selected h6;
             Some (filtered, s\<lparr>heap := h7\<rparr>) })"

text \<open>The second part, lines 188 to 207: the figure made from \<^verbatim>\<open>filtered\<close>.\<close>

definition update_scatter ::
  "string \<Rightarrow> ('p :: linorder) option \<times> 'p option \<Rightarrow> 'p state
     \<Rightarrow> ('p scatter_figure \<times> 'p state) option" where
  "update_scatter selected_site payload_range s =
     do { (filtered, s') \<leftarrow> scatter_filtered selected_site payload_range s;
          rows \<leftarrow> get_frame (heap s') filtered;
          let fig = px_scatter rows
                      (''Correlation between Payload and Success '' @
                       (if selected_site = ''ALL'' then ''(All Sites)''
                        else ''('' @ selected_site @ '')''));
              fig = update_yaxes [0, 1] [''Failure (0)'', ''Success (1)''] fig
          in Some (update_layout (20, 20, 60, 20) fig, s') }"

text \<open>
  Dash calls a callback whenever one of its inputs changes. A run of the application
  after start-up is a sequence of such calls, each on the state the one before left.
\<close>

datatype 'p call = Pie string | Scatter string "'p option \<times> 'p option"

fun invoke :: "('p :: linorder) call \<Rightarrow> 'p state \<Rightarrow> 'p state option" where
  "invoke (Pie selected_site) s = map_option snd (update_pie selected_site s)"
| "invoke (Scatter selected_site payload_range) s =
     map_option snd (update_scatter selected_site payload_range s)"

fun invoke_all :: "('p :: linorder) call list \<Rightarrow> 'p state \<Rightarrow> 'p state option" where
  "invoke_all [] s = Some s"
| "invoke_all (c # cs) s = (case invoke c s of None \<Rightarrow> None | Some s' \<Rightarrow> invoke_all cs s')"

section \<open>Sample tables\<close>

definition row :: "string \<Rightarrow> int \<Rightarrow> 'p \<Rightarrow> string \<Rightarrow> 'p launch" where
  "row site outcome payload booster =
     \<lparr>Launch_Site = Some site, Class = Some outcome, Payload_Mass = Some payload,
      Booster_Version_Category = Some booster\<rparr>"

text \<open>A raw file of seven records; three of them miss a site, an outcome or a payload.\<close>

definition raw_sample :: "int frame" where
  "raw_sample =
     [row ''A'' 1 500 ''v1.0'',
      \<lparr>Launch_Site = None, Class = Some 1, Payload_Mass = Some 700,
       Booster_Version_Category = Some ''v1.1''\<rparr>,
      row ''A'' 0 2500 ''v1.1'',
      \<lparr>Launch_Site = Some ''B'', Class = None, Payload_Mass = Some 900,
       Booster_Version_Category = Some ''FT''\<rparr>,
      \<lparr>Launch_Site = Some ''B'', Class = Some 1, Payload_Mass = Some 3000,
       Booster_Version_Category = None\<rparr>,
      \<lparr>Launch_Site = Some ''B'', Class = Some 0, Payload_Mass = None,
       Booster_Version_Category = Some ''FT''\<rparr>,
      row ''B'' 1 9600 ''B4'']"

definition four_columns :: "string list" where
  "four_columns =
     [''Launch Site'', ''class'', ''Payload Mass (kg)'', ''Booster Version Category'']"

definition sample_files :: "int files" where
  "sample_files = [''spacex_launch_dash.csv'' \<mapsto> Table four_columns raw_sample]"

text \<open>
  Its four complete records: sites A, A, B, B with outcomes 1, 0, 1, 1; the third has
  no booster category.
\<close>

definition sample_table :: "int frame" where
  "sample_table =
     [row ''A'' 1 500 ''v1.0'',
      row ''A'' 0 2500 ''v1.1'',
      \<lparr>Launch_Site = Some ''B'', Class = Some 1, Payload_Mass = Some 3000,
       Booster_Version_Category = None\<rparr>,
      row ''B'' 1 9600 ''B4'']"

text \<open>The state after start-up on that file, and the state one pie of site A later.\<close>

definition sample_state :: "int state" where
  "sample_state =
     \<lparr>heap = [DataFrame sample_table], spacex_df = 0,
      payload_min = Some 500, payload_max = Some 9600, launch_sites = [''A'', ''B'']\<rparr>"

definition sample_reached :: "int state" where
  "sample_reached =
     \<lparr>heap = [DataFrame sample_table,
              Series [True, True, False, False],
              DataFrame [row ''A'' 1 500 ''v1.0'', row ''A'' 0 2500 ''v1.1'']],
      spacex_df = 0,
      payload_min = Some 500, payload_max = Some 9600, launch_sites = [''A'', ''B'']\<rparr>"

definition no_booster_row :: "int launch" where
  "no_booster_row =
     \<lparr>Launch_Site = Some ''B'', Class = Some 1, Payload_Mass = Some 3000,
      Booster_Version_Category = None\<rparr>"

definition negative_files :: "int files" where
  "negative_files =
     [''spacex_launch_dash.csv'' \<mapsto> Table four_columns [row ''A'' 1 (- 5) ''v1.0'']]"

text \<open>An empty file at the default path: \<^verbatim>\<open>pd.read_csv\<close> raises \<^verbatim>\<open>EmptyDataError\<close> on it.\<close>

definition empty_file :: "int files" where
  "empty_file = [''spacex_launch_dash.csv'' \<mapsto> Unreadable EmptyDataError]"

text \<open>A table without the payload column.\<close>

definition no_payload_column :: "int files" where
  "no_payload_column =
     [''spacex_launch_dash.csv'' \<mapsto>
        Table [''Launch Site'', ''class'', ''Booster Version Category''] raw_sample]"

text \<open>
  A table of Python integers whose largest payload, \<open>2 ^ 64 + 1\<close>, is not a float:
  \<^verbatim>\<open>float\<close> rounds it down to \<open>2 ^ 64\<close>. The state is the one after start-up on it.
\<close>

definition big_table :: "int frame" where
  "big_table = [row ''A'' 1 500 ''v1.0'', row ''B'' 1 18446744073709551617 ''B5'']"

definition big_files :: "int files" where
  "big_files = [''spacex_launch_dash.csv'' \<mapsto> Table four_columns big_table]"

definition big_state :: "int state" where
  "big_state =
     \<lparr>heap = [DataFrame big_table], spacex_df = 0,
      payload_min = Some 500, payload_max = Some 18446744073709551616,
      launch_sites = [''A'', ''B'']\<rparr>"

section \<open>Reading and extending the store\<close>

lemma get_frame_append [simp]: "get_frame h a = Some t \<Longrightarrow> get_frame (h @ xs) a = Some t"
  by (auto simp: get_frame_def nth_append split: if_splits)

lemma get_series_append [simp]: "get_series h a = Some t \<Longrightarrow> get_series (h @ xs) a = Some t"
  by (auto simp: get_series_def nth_append split: if_splits)

lemma get_series_new [simp]: "get_series (h @ Series bs # xs) (length h) = Some bs"
  by (simp add: get_series_def)

lemma get_frame_new [simp]: "get_frame (h @ DataFrame t # xs) (length h) = Some t"
  by (simp add: get_frame_def)

lemma get_series_beyond: "length h \<le> a \<Longrightarrow> get_series (h @ xs) a = get_series xs (a - length h)"
  by (auto simp: get_series_def nth_append)

lemma get_frame_beyond: "length h \<le> a \<Longrightarrow> get_frame (h @ xs) a = get_frame xs (a - length h)"
  by (auto simp: get_frame_def nth_append)

lemma get_series_Cons [simp]:
  "get_series (Series bs # xs) 0 = Some bs"
  "get_series (DataFrame t # xs) 0 = None"
  "get_series (x # xs) (Suc n) = get_series xs n"
  "get_series [] n = None"
  by (simp_all add: get_series_def)

lemma get_frame_Cons [simp]:
  "get_frame (DataFrame t # xs) 0 = Some t"
  "get_frame (Series bs # xs) 0 = None"
  "get_frame (x # xs) (Suc n) = get_frame xs n"
  "get_frame [] n = None"
  by (simp_all add: get_frame_def)

lemma get_series_Cons_numeral [simp]:
  "get_series (x # xs) (numeral k) = get_series xs (pred_numeral k)"
  by (simp add: numeral_eq_Suc)

lemma get_frame_Cons_numeral [simp]:
  "get_frame (x # xs) (numeral k) = get_frame xs (pred_numeral k)"
  by (simp add: numeral_eq_Suc)

lemma update_beyond: "length h \<le> a \<Longrightarrow> (h @ xs)[a := v] = h @ xs[a - length h := v]"
  by (simp add: list_update_append)

lemma select_by_mask: "map fst (filter snd (zip rows (map f rows))) = filter f rows"
  by (induction rows) auto

lemma map2_and: "map2 (\<and>) (map f rows) (map g rows) = map (\<lambda>r. f r \<and> g r) rows"
  by (induction rows) auto

lemma zip_map_same: "zip (map f xs) (map g xs) = map (\<lambda>x. (f x, g x)) xs"
  by (induction xs) auto

lemma nan_le_Some: "nan_le (Some x) v = (\<exists>p. v = Some p \<and> x \<le> p)"
  "nan_le v (Some y) = (\<exists>p. v = Some p \<and> p \<le> y)"
  by (auto simp: nan_le_def split: option.splits)

lemmas run_simps = col_ge_def col_le_def col_eq_def series_and_def series_iand_def
     getitem_mask_def frame_copy_def alloc_def map2_and select_by_mask
     get_series_beyond get_frame_beyond update_beyond groupby_count_def

section \<open>What the callbacks compute and allocate\<close>

text \<open>
  The filter of the scatter callback, run symbolically on a store whose \<^verbatim>\<open>spacex_df\<close> holds
  the table \<open>t\<close>: the objects it appends, and the reference it returns. With a site
  selected, the third new object (the mask) is the one overwritten in place.
\<close>

lemma scatter_filtered_ALL:
  assumes "get_frame (heap s) (spacex_df s) = Some t"
  shows "scatter_filtered ''ALL'' (lo, hi) s =
     Some (length (heap s) + 4,
       s\<lparr>heap := heap s @
           [Series (map (\<lambda>r. nan_le lo (Payload_Mass r)) t),
            Series (map (\<lambda>r. nan_le (Payload_Mass r) hi) t),
            Series (map (\<lambda>r. nan_le lo (Payload_Mass r) \<and> nan_le (Payload_Mass r) hi) t),
            DataFrame (filter (\<lambda>r. nan_le lo (Payload_Mass r) \<and> nan_le (Payload_Mass r) hi) t),
            DataFrame (filter (\<lambda>r. nan_le lo (Payload_Mass r) \<and> nan_le (Payload_Mass r) hi) t)]\<rparr>)"
  using assms by (simp add: scatter_filtered_def run_simps)

lemma scatter_filtered_site:
  assumes "get_frame (heap s) (spacex_df s) = Some t" and "sel \<noteq> ''ALL''"
  shows "scatter_filtered sel (lo, hi) s =
     Some (length (heap s) + 5,
       s\<lparr>heap := heap s @
           [Series (map (\<lambda>r. nan_le lo (Payload_Mass r)) t),
            Series (map (\<lambda>r. nan_le (Payload_Mass r) hi) t),
            Series (map (\<lambda>r. nan_le lo (Payload_Mass r) \<and> nan_le (Payload_Mass r) hi
                          \<and> Launch_Site r = Some sel) t),
            Series (map (\<lambda>r. Launch_Site r = Some sel) t),
            DataFrame (filter (\<lambda>r. nan_le lo (Payload_Mass r) \<and> nan_le (Payload_Mass r) hi
                          \<and> Launch_Site r = Some sel) t),
            DataFrame (filter (\<lambda>r. nan_le lo (Payload_Mass r) \<and> nan_le (Payload_Mass r) hi
                          \<and> Launch_Site r = Some sel) t)]\<rparr>)"
  using assms by (simp add: scatter_filtered_def run_simps)

lemma scatter_filtered_run:
  assumes "get_frame (heap s) (spacex_df s) = Some t"
  shows "\<exists>a new. scatter_filtered sel (lo, hi) s = Some (a, s\<lparr>heap := heap s @ new\<rparr>)
           \<and> get_frame (heap s @ new) a =
               Some (filter (\<lambda>r. nan_le lo (Payload_Mass r) \<and> nan_le (Payload_Mass r) hi
                          \<and> (sel = ''ALL'' \<or> Launch_Site r = Some sel)) t)"
proof (cases "sel = ''ALL''")
  case True
  show ?thesis
    unfolding True scatter_filtered_ALL [OF assms]
    by (intro exI conjI, rule refl) (simp add: get_frame_beyond)
next
  case False
  show ?thesis
    unfolding scatter_filtered_site [OF assms False]
    by (intro exI conjI, rule refl) (simp add: get_frame_beyond False)
qed

lemma update_scatter_run:
  assumes "get_frame (heap s) (spacex_df s) = Some t"
  shows "\<exists>new. update_scatter sel (lo, hi) s =
           Some (update_layout (20, 20, 60, 20)
                   (update_yaxes [0, 1] [''Failure (0)'', ''Success (1)'']
                      (px_scatter
                         (filter (\<lambda>r. nan_le lo (Payload_Mass r) \<and> nan_le (Payload_Mass r) hi
                            \<and> (sel = ''ALL'' \<or> Launch_Site r = Some sel)) t)
                         (''Correlation between Payload and Success '' @
                            (if sel = ''ALL'' then ''(All Sites)'' else ''('' @ sel @ '')'')))),
                 s\<lparr>heap := heap s @ new\<rparr>)"
proof -
  from scatter_filtered_run [OF assms, of sel lo hi]
  obtain a new where run: "scatter_filtered sel (lo, hi) s = Some (a, s\<lparr>heap := heap s @ new\<rparr>)"
    and got: "get_frame (heap s @ new) a =
               Some (filter (\<lambda>r. nan_le lo (Payload_Mass r) \<and> nan_le (Payload_Mass r) hi
                          \<and> (sel = ''ALL'' \<or> Launch_Site r = Some sel)) t)"
    by blast
  show ?thesis
    by (rule exI [of _ new]) (simp add: update_scatter_def run got)
qed

lemma scatter_columns:
  "scatter_x (update_layout m (update_yaxes vals texts (px_scatter rows title)))
     = map Payload_Mass (concat (map snd (get_groups rows)))"
  "scatter_y (update_layout m (update_yaxes vals texts (px_scatter rows title)))
     = map Class (concat (map snd (get_groups rows)))"
  by (simp_all add: update_layout_def update_yaxes_def px_scatter_def scatter_x_def scatter_y_def
      trace_of_def map_concat comp_def case_prod_unfold)

lemma scatter_run:
  assumes "get_frame (heap s) (spacex_df s) = Some t"
  shows "\<exists>filtered s' fig.
           scatter_filtered sel (lo, hi) s = Some (filtered, s')
         \<and> get_frame (heap s') filtered =
             Some (filter (\<lambda>r. nan_le lo (Payload_Mass r) \<and> nan_le (Payload_Mass r) hi
                          \<and> (sel = ''ALL'' \<or> Launch_Site r = Some sel)) t)
         \<and> update_scatter sel (lo, hi) s = Some (fig, s')
         \<and> scatter_x fig = map Payload_Mass (concat (map snd (get_groups
               (filter (\<lambda>r. nan_le lo (Payload_Mass r) \<and> nan_le (Payload_Mass r) hi
                          \<and> (sel = ''ALL'' \<or> Launch_Site r = Some sel)) t))))
         \<and> scatter_y fig = map Class (concat (map snd (get_groups
               (filter (\<lambda>r. nan_le lo (Payload_Mass r) \<and> nan_le (Payload_Mass r) hi
                          \<and> (sel = ''ALL'' \<or> Launch_Site r = Some sel)) t))))"
proof -
  let ?rows = "filter (\<lambda>r. nan_le lo (Payload_Mass r) \<and> nan_le (Payload_Mass r) hi
                          \<and> (sel = ''ALL'' \<or> Launch_Site r = Some sel)) t"
  let ?fig = "update_layout (20, 20, 60, 20)
                (update_yaxes [0, 1] [''Failure (0)'', ''Success (1)'']
                   (px_scatter ?rows
                      (''Correlation between Payload and Success '' @
                         (if sel = ''ALL'' then ''(All Sites)'' else ''('' @ sel @ '')''))))"
  from scatter_filtered_run [OF assms, of sel lo hi]
  obtain a new where run: "scatter_filtered sel (lo, hi) s = Some (a, s\<lparr>heap := heap s @ new\<rparr>)"
    and got: "get_frame (heap s @ new) a = Some ?rows"
    by blast
  have fig: "update_scatter sel (lo, hi) s = Some (?fig, s\<lparr>heap := heap s @ new\<rparr>)"
    by (simp add: update_scatter_def run got)
  have "get_frame (heap (s\<lparr>heap := heap s @ new\<rparr>)) a = Some ?rows"
    using got by simp
  with run fig scatter_columns(1) [of _ _ _ ?rows] scatter_columns(2) [of _ _ _ ?rows]
  show ?thesis by blast
qed

lemma in_range_filter:
  "filter (\<lambda>r. nan_le (Some lo) (Payload_Mass r) \<and> nan_le (Payload_Mass r) (Some hi)
             \<and> (sel = ''ALL'' \<or> Launch_Site r = Some sel)) t
   = filter (\<lambda>r. (\<exists>p. Payload_Mass r = Some p \<and> lo \<le> p \<and> p \<le> hi)
             \<and> (sel = ''ALL'' \<or> Launch_Site r = Some sel)) t"
  by (rule filter_cong) (auto simp: nan_le_Some)


lemma update_pie_ALL:
  assumes "get_frame (heap s) (spacex_df s) = Some t"
  shows "update_pie ''ALL'' s =
     Some (update_layout (20, 20, 60, 20)
             (px_pie
                (map (\<lambda>site. (Str site,
                        length (filter (\<lambda>r. Launch_Site r = Some site \<and> Class r = Some 1) t)))
                   (sort (unique (List.map_filter Launch_Site (filter (\<lambda>r. Class r = Some 1) t)))))
                ''Total Successful Launches by Site''),
           s\<lparr>heap := heap s @
               [Series (map (\<lambda>r. Class r = Some 1) t),
                DataFrame (filter (\<lambda>r. Class r = Some 1) t)]\<rparr>)"
proof -
  have same: "(\<lambda>r. Class r = Some 1 \<and> Launch_Site r = Some k \<and> \<not> isna (Class r))
                = (\<lambda>r. Launch_Site r = Some k \<and> Class r = Some 1)" for k
    by (auto simp: isna_def)
  show ?thesis
    using assms by (simp add: update_pie_def run_simps same comp_def)
qed

lemma update_pie_site:
  assumes "get_frame (heap s) (spacex_df s) = Some t" and "sel \<noteq> ''ALL''"
  shows "update_pie sel s =
     Some (update_layout (20, 20, 60, 20)
             (px_pie
                (map (\<lambda>c. (rename_index c,
                        length (filter (\<lambda>r. Launch_Site r = Some sel \<and> Class r = Some c) t)))
                   (sort (unique (List.map_filter Class (filter (\<lambda>r. Launch_Site r = Some sel) t)))))
                (''Launch Outcomes for '' @ sel)),
           s\<lparr>heap := heap s @
               [Series (map (\<lambda>r. Launch_Site r = Some sel) t),
                DataFrame (filter (\<lambda>r. Launch_Site r = Some sel) t)]\<rparr>)"
proof -
  have same: "(\<lambda>r. Launch_Site r = Some sel \<and> Class r = Some k \<and> \<not> isna (Class r))
                = (\<lambda>r. Launch_Site r = Some sel \<and> Class r = Some k)" for k
    by (auto simp: isna_def)
  show ?thesis
    using assms by (simp add: update_pie_def run_simps same comp_def)
qed

text \<open>
  Every callback returns, and the state it leaves is the state it found with new
  objects appended to the store.
\<close>

lemma update_pie_appends:
  assumes "get_frame (heap s) (spacex_df s) = Some t"
  shows "\<exists>fig new. update_pie sel s = Some (fig, s\<lparr>heap := heap s @ new\<rparr>)"
proof (cases "sel = ''ALL''")
  case True
  show ?thesis unfolding True update_pie_ALL [OF assms] by blast
next
  case False
  show ?thesis unfolding update_pie_site [OF assms False] by blast
qed

lemma update_scatter_appends:
  assumes "get_frame (heap s) (spacex_df s) = Some t"
  shows "\<exists>fig new. update_scatter sel rng s = Some (fig, s\<lparr>heap := heap s @ new\<rparr>)"
proof -
  obtain lo hi where rng: "rng = (lo, hi)" by (cases rng)
  from update_scatter_run [OF assms, of sel lo hi] show ?thesis
    unfolding rng by blast
qed

lemma invoke_appends:
  assumes "get_frame (heap s) (spacex_df s) = Some t"
  shows "\<exists>new. invoke c s = Some (s\<lparr>heap := heap s @ new\<rparr>)"
proof (cases c)
  case (Pie sel)
  from update_pie_appends [OF assms, of sel] show ?thesis
    unfolding Pie by auto
next
  case (Scatter sel rng)
  from update_scatter_appends [OF assms, of sel rng] show ?thesis
    unfolding Scatter by auto
qed

lemma invoke_all_appends:
  "get_frame (heap s) (spacex_df s) = Some t \<Longrightarrow>
     \<exists>new. invoke_all cs s = Some (s\<lparr>heap := heap s @ new\<rparr>)"
proof (induction cs arbitrary: s)
  case Nil
  have "s = s\<lparr>heap := heap s @ []\<rparr>" by simp
  then show ?case by (metis invoke_all.simps(1))
next
  case (Cons c cs)
  from invoke_appends [OF Cons.prems, of c]
  obtain new1 where step: "invoke c s = Some (s\<lparr>heap := heap s @ new1\<rparr>)" by blast
  let ?s1 = "s\<lparr>heap := heap s @ new1\<rparr>"
  have "get_frame (heap ?s1) (spacex_df ?s1) = Some t"
    using Cons.prems by simp
  from Cons.IH [OF this]
  obtain new2 where rest: "invoke_all cs ?s1 = Some (?s1\<lparr>heap := heap ?s1 @ new2\<rparr>)" by blast
  have "invoke_all (c # cs) s = Some (s\<lparr>heap := heap s @ (new1 @ new2)\<rparr>)"
    by (simp add: step rest)
  then show ?case by blast
qed

section \<open>Grouping and counting\<close>

lemma set_unique [simp]: "set (unique xs) = set xs"
  by (simp add: unique_def)

lemma distinct_unique [simp]: "distinct (unique xs)"
  by (simp add: unique_def)

lemma set_map_filter: "set (List.map_filter f xs) = {y. \<exists>x\<in>set xs. f x = Some y}"
  by (induction xs) (auto simp: List.map_filter_simps split: option.splits)

lemma length_filter_disjoint:
  "(\<And>x. x \<in> set xs \<Longrightarrow> \<not> (P x \<and> Q x)) \<Longrightarrow>
     length (filter (\<lambda>x. P x \<or> Q x) xs) = length (filter P xs) + length (filter Q xs)"
  by (induction xs) auto

lemma sum_group_counts:
  assumes "distinct ks"
  shows "sum_list (map (\<lambda>k. length (filter (\<lambda>r. key r = Some k \<and> Q r) rows)) ks)
           = length (filter (\<lambda>r. (\<exists>k\<in>set ks. key r = Some k) \<and> Q r) rows)"
  using assms
proof (induction ks)
  case Nil
  then show ?case by simp
next
  case (Cons k ks)
  let ?here = "\<lambda>r. key r = Some k \<and> Q r"
  let ?rest = "\<lambda>r. (\<exists>k'\<in>set ks. key r = Some k') \<and> Q r"
  have "filter (\<lambda>r. (\<exists>k'\<in>set (k # ks). key r = Some k') \<and> Q r) rows
          = filter (\<lambda>r. ?here r \<or> ?rest r) rows"
    by (rule filter_cong) auto
  moreover have "length (filter (\<lambda>r. ?here r \<or> ?rest r) rows)
          = length (filter ?here rows) + length (filter ?rest rows)"
    using Cons.prems by (intro length_filter_disjoint) auto
  moreover have "sum_list (map (\<lambda>k. length (filter (\<lambda>r. key r = Some k \<and> Q r) rows)) ks)
          = length (filter ?rest rows)"
    using Cons by simp
  ultimately show ?case by simp
qed

lemma sum_group_counts_rev:
  assumes "distinct ks"
  shows "sum_list (map (\<lambda>k. length (filter (\<lambda>r. Q r \<and> key r = Some k) rows)) ks)
           = length (filter (\<lambda>r. (\<exists>k\<in>set ks. key r = Some k) \<and> Q r) rows)"
proof -
  have "(\<lambda>k. length (filter (\<lambda>r. Q r \<and> key r = Some k) rows))
          = (\<lambda>k. length (filter (\<lambda>r. key r = Some k \<and> Q r) rows))"
    by (auto simp: conj_commute)
  then show ?thesis
    using sum_group_counts [OF assms, of key Q rows] by simp
qed

lemma pie_values_ALL:
  assumes "get_frame (heap s) (spacex_df s) = Some t"
  shows "map_option (sum_list \<circ> pie_values \<circ> fst) (update_pie ''ALL'' s) =
     Some (length (filter (\<lambda>r. Class r = Some 1 \<and> Launch_Site r \<noteq> None) t))"
proof -
  let ?ks = "sort (unique (List.map_filter Launch_Site (filter (\<lambda>r. Class r = Some 1) t)))"
  have "sum_list (map (\<lambda>k. length (filter (\<lambda>r. Launch_Site r = Some k \<and> Class r = Some 1) t)) ?ks)
          = length (filter (\<lambda>r. (\<exists>k\<in>set ?ks. Launch_Site r = Some k) \<and> Class r = Some 1) t)"
    by (rule sum_group_counts) simp
  also have "filter (\<lambda>r. (\<exists>k\<in>set ?ks. Launch_Site r = Some k) \<and> Class r = Some 1) t
          = filter (\<lambda>r. Class r = Some 1 \<and> Launch_Site r \<noteq> None) t"
    by (rule filter_cong) (auto simp: set_map_filter)
  finally show ?thesis
    by (simp add: update_pie_ALL [OF assms] update_layout_def px_pie_def comp_def)
qed

lemma pie_values_site:
  assumes "get_frame (heap s) (spacex_df s) = Some t" and "sel \<noteq> ''ALL''"
  shows "map_option (sum_list \<circ> pie_values \<circ> fst) (update_pie sel s) =
     Some (length (filter (\<lambda>r. Launch_Site r = Some sel \<and> Class r \<noteq> None) t))"
proof -
  let ?ks = "sort (unique (List.map_filter Class (filter (\<lambda>r. Launch_Site r = Some sel) t)))"
  have "sum_list (map (\<lambda>k. length (filter (\<lambda>r. Launch_Site r = Some sel \<and> Class r = Some k) t)) ?ks)
          = length (filter (\<lambda>r. (\<exists>k\<in>set ?ks. Class r = Some k) \<and> Launch_Site r = Some sel) t)"
    by (rule sum_group_counts_rev) simp
  also have "filter (\<lambda>r. (\<exists>k\<in>set ?ks. Class r = Some k) \<and> Launch_Site r = Some sel) t
          = filter (\<lambda>r. Launch_Site r = Some sel \<and> Class r \<noteq> None) t"
    by (rule filter_cong) (auto simp: set_map_filter)
  finally show ?thesis
    by (simp add: update_pie_site [OF assms] update_layout_def px_pie_def comp_def)
qed

section \<open>Loading, start-up and reachable states\<close>

lemma dropna_three:
  "dropna [(''Launch Site'', isna \<circ> Launch_Site), (''class'', isna \<circ> Class),
           (''Payload Mass (kg)'', isna \<circ> Payload_Mass)] columns df =
     (if set [''Launch Site'', ''class'', ''Payload Mass (kg)''] \<subseteq> set columns
      then Inr (filter (\<lambda>r. Launch_Site r \<noteq> None \<and> Class r \<noteq> None \<and> Payload_Mass r \<noteq> None) df)
      else Inl (KeyError (filter (\<lambda>name. name \<notin> set columns)
                            [''Launch Site'', ''class'', ''Payload Mass (kg)''])))"
  by (simp add: dropna_def isna_def)

lemma load_present:
  "files path = Some (Table columns raw) \<Longrightarrow>
   set [''Launch Site'', ''class'', ''Payload Mass (kg)''] \<subseteq> set columns \<Longrightarrow>
     load files path =
       Inr (filter (\<lambda>r. Launch_Site r \<noteq> None \<and> Class r \<noteq> None \<and> Payload_Mass r \<noteq> None) raw)"
  by (simp add: load_def os_path_exists_def read_csv_def dropna_three)

lemma load_absent: "files path = None \<Longrightarrow> load files path = Inl (FileNotFoundError path)"
  by (simp add: load_def os_path_exists_def)

lemma load_unreadable:
  "files path = Some (Unreadable e) \<Longrightarrow> load files path = Inl (ReadError e)"
  by (simp add: load_def os_path_exists_def read_csv_def)

lemma load_lacking:
  "files path = Some (Table columns raw) \<Longrightarrow>
   \<not> set [''Launch Site'', ''class'', ''Payload Mass (kg)''] \<subseteq> set columns \<Longrightarrow>
     load files path =
       Inl (KeyError (filter (\<lambda>name. name \<notin> set columns)
                        [''Launch Site'', ''class'', ''Payload Mass (kg)'']))"
  by (simp add: load_def os_path_exists_def read_csv_def dropna_three)

lemma load_complete:
  assumes "load files path = Inr t"
  shows "\<exists>columns raw. files path = Some (Table columns raw)
     \<and> set [''Launch Site'', ''class'', ''Payload Mass (kg)''] \<subseteq> set columns
     \<and> t = filter (\<lambda>r. Launch_Site r \<noteq> None \<and> Class r \<noteq> None \<and> Payload_Mass r \<noteq> None) raw"
proof (cases "files path")
  case None
  with assms show ?thesis by (simp add: load_absent)
next
  case (Some found)
  show ?thesis
  proof (cases found)
    case (Unreadable e)
    with Some assms show ?thesis by (simp add: load_unreadable)
  next
    case (Table columns raw)
    show ?thesis
    proof (cases "set [''Launch Site'', ''class'', ''Payload Mass (kg)''] \<subseteq> set columns")
      case True
      from load_present [of files path columns raw] Some Table True assms
      show ?thesis by simp
    next
      case False
      from load_lacking [of files path columns raw] Some Table False assms
      show ?thesis by simp
    qed
  qed
qed

lemma loaded_rows_complete:
  assumes "load files path = Inr t" and "r \<in> set t"
  shows "Launch_Site r \<noteq> None \<and> Class r \<noteq> None \<and> Payload_Mass r \<noteq> None"
proof -
  from load_complete [OF assms(1)] assms(2) show ?thesis by auto
qed

lemma nonneg_filter_complete:
  fixes raw :: "('p :: {linorder, zero}) frame"
  shows "list_all (\<lambda>r. case Payload_Mass r of None \<Rightarrow> False | Some p \<Rightarrow> 0 \<le> p)
           (filter (\<lambda>r. Launch_Site r \<noteq> None \<and> Class r \<noteq> None \<and> Payload_Mass r \<noteq> None) raw)
         = list_all (\<lambda>r. isna (Launch_Site r) \<or> isna (Class r)
             \<or> (case Payload_Mass r of None \<Rightarrow> True | Some p \<Rightarrow> 0 \<le> p)) raw"
  by (induction raw) (auto simp: isna_def split: option.splits)

lemma startup_state:
  assumes "startup float environ files = Inr s0"
  shows "\<exists>t. load files (CSV_PATH environ) = Inr t
           \<and> s0 = \<lparr>heap = [DataFrame t], spacex_df = 0,
                   payload_min = map_option float (series_min (map Payload_Mass t)),
                   payload_max = map_option float (series_max (map Payload_Mass t)),
                   launch_sites = sort (unique (List.map_filter Launch_Site t))\<rparr>"
  using assms by (auto simp: startup_def alloc_def split: sum.splits)

lemma reached_state:
  assumes "startup float environ files = Inr s0" and "invoke_all calls s0 = Some s"
  shows "\<exists>t new. load files (CSV_PATH environ) = Inr t
           \<and> get_frame (heap s) (spacex_df s) = Some t
           \<and> s = \<lparr>heap = DataFrame t # new, spacex_df = 0,
                   payload_min = map_option float (series_min (map Payload_Mass t)),
                   payload_max = map_option float (series_max (map Payload_Mass t)),
                   launch_sites = sort (unique (List.map_filter Launch_Site t))\<rparr>"
proof -
  from startup_state [OF assms(1)] obtain t where
    loaded: "load files (CSV_PATH environ) = Inr t" and
    s0: "s0 = \<lparr>heap = [DataFrame t], spacex_df = 0,
                   payload_min = map_option float (series_min (map Payload_Mass t)),
                   payload_max = map_option float (series_max (map Payload_Mass t)),
                   launch_sites = sort (unique (List.map_filter Launch_Site t))\<rparr>"
    by blast
  have "get_frame (heap s0) (spacex_df s0) = Some t"
    by (simp add: s0)
  from invoke_all_appends [OF this, of calls] assms(2)
  obtain new where "s = s0\<lparr>heap := heap s0 @ new\<rparr>" by auto
  then have "s = \<lparr>heap = DataFrame t # new, spacex_df = 0,
                   payload_min = map_option float (series_min (map Payload_Mass t)),
                   payload_max = map_option float (series_max (map Payload_Mass t)),
                   launch_sites = sort (unique (List.map_filter Launch_Site t))\<rparr>"
    by (simp add: s0)
  with loaded show ?thesis by auto
qed

lemma series_min_le:
  assumes "Some p \<in> set vs"
  shows "\<exists>m. series_min vs = Some m \<and> m \<le> p"
proof -
  have mem: "p \<in> set (List.map_filter id vs)"
    using assms by (auto simp: set_map_filter)
  then obtain v rest where vs: "List.map_filter id vs = v # rest"
    by (cases "List.map_filter id vs") auto
  have "fold min rest v = Min (set (v # rest))"
    by (simp only: Min.set_eq_fold)
  moreover have "Min (set (v # rest)) \<le> p"
    using mem unfolding vs by (intro Min_le) auto
  ultimately show ?thesis
    by (simp add: series_min_def vs)
qed

lemma series_max_ge:
  assumes "Some p \<in> set vs"
  shows "\<exists>m. series_max vs = Some m \<and> p \<le> m"
proof -
  have mem: "p \<in> set (List.map_filter id vs)"
    using assms by (auto simp: set_map_filter)
  then obtain v rest where vs: "List.map_filter id vs = v # rest"
    by (cases "List.map_filter id vs") auto
  have "fold max rest v = Max (set (v # rest))"
    by (simp only: Max.set_eq_fold)
  moreover have "p \<le> Max (set (v # rest))"
    using mem unfolding vs by (intro Max_ge) auto
  ultimately show ?thesis
    by (simp add: series_max_def vs)
qed

lemma full_range_keeps_all:
  assumes "\<And>r. r \<in> set t \<Longrightarrow> Payload_Mass r \<noteq> None"
  shows "filter (\<lambda>r. nan_le (series_min (map Payload_Mass t)) (Payload_Mass r)
                   \<and> nan_le (Payload_Mass r) (series_max (map Payload_Mass t))) t = t"
proof -
  have "nan_le (series_min (map Payload_Mass t)) (Payload_Mass r)
          \<and> nan_le (Payload_Mass r) (series_max (map Payload_Mass t))" if r: "r \<in> set t" for r
  proof -
    from assms [OF r] obtain p where p: "Payload_Mass r = Some p" by auto
    then have mem: "Some p \<in> set (map Payload_Mass t)" using r by force
    from series_min_le [OF mem] series_max_ge [OF mem] show ?thesis
      by (auto simp: p nan_le_def)
  qed
  then show ?thesis by (simp add: filter_id_conv)
qed


section \<open>The groups of a scatter figure\<close>

lemma distinct_map_filter_id: "distinct xs \<Longrightarrow> distinct (List.map_filter id xs)"
  by (induction xs) (auto simp: List.map_filter_simps set_map_filter split: option.splits)

lemma distinct_one_member:
  assumes "set xs = {a}" and "distinct xs"
  shows "xs = [a]"
proof (cases xs)
  case Nil
  with assms show ?thesis by simp
next
  case (Cons x ys)
  with assms have "x = a" by auto
  have "ys = []"
  proof (rule ccontr)
    assume "ys \<noteq> []"
    then obtain y where "y \<in> set ys" by (cases ys) auto
    with assms Cons \<open>x = a\<close> show False by auto
  qed
  with Cons \<open>x = a\<close> show ?thesis by simp
qed

lemma mset_filter_disjoint:
  "(\<And>x. x \<in> set xs \<Longrightarrow> \<not> (P x \<and> Q x)) \<Longrightarrow>
     mset (filter (\<lambda>x. P x \<or> Q x) xs) = mset (filter P xs) + mset (filter Q xs)"
  by (induction xs) auto

lemma mset_groups:
  assumes "distinct ks"
  shows "mset (concat (map (\<lambda>k. filter (\<lambda>r. key r = Some k) rows) ks))
           = mset (filter (\<lambda>r. \<exists>k\<in>set ks. key r = Some k) rows)"
  using assms
proof (induction ks)
  case Nil
  then show ?case by simp
next
  case (Cons k ks)
  let ?here = "\<lambda>r. key r = Some k"
  let ?rest = "\<lambda>r. \<exists>k'\<in>set ks. key r = Some k'"
  have "filter (\<lambda>r. \<exists>k'\<in>set (k # ks). key r = Some k') rows
          = filter (\<lambda>r. ?here r \<or> ?rest r) rows"
    by (rule filter_cong) auto
  moreover have "mset (filter (\<lambda>r. ?here r \<or> ?rest r) rows)
          = mset (filter ?here rows) + mset (filter ?rest rows)"
    using Cons.prems by (intro mset_filter_disjoint) auto
  moreover have "mset (concat (map (\<lambda>k. filter (\<lambda>r. key r = Some k) rows) ks))
          = mset (filter ?rest rows)"
    using Cons by simp
  ultimately show ?case by simp
qed

text \<open>
  The rows that get a point: those with a booster category, and all of them when no
  row has one.
\<close>

lemma mset_get_groups:
  "mset (concat (map snd (get_groups rows)))
     = mset (filter (\<lambda>r. Booster_Version_Category r \<noteq> None
                          \<or> list_all (\<lambda>r'. Booster_Version_Category r' = None) rows) rows)"
proof -
  let ?col = "map Booster_Version_Category rows"
  let ?shown = "\<lambda>r. Booster_Version_Category r \<noteq> None
                          \<or> list_all (\<lambda>r'. Booster_Version_Category r' = None) rows"
  have members: "set (unique ?col) = Booster_Version_Category ` set rows"
    by simp
  show ?thesis
  proof (cases "\<exists>category. unique ?col = [category]")
    case True
    then obtain category where one: "unique ?col = [category]" by blast
    with members have same: "Booster_Version_Category r = category" if "r \<in> set rows" for r
      using that by auto
    have "filter ?shown rows = rows"
      unfolding filter_id_conv
    proof
      fix r assume r: "r \<in> set rows"
      show "?shown r"
      proof (cases category)
        case None
        then have "list_all (\<lambda>r'. Booster_Version_Category r' = None) rows"
          using same by (simp add: list_all_iff)
        then show ?thesis by simp
      next
        case (Some c)
        with same [OF r] show ?thesis by simp
      qed
    qed
    then show ?thesis
      by (simp add: get_groups_def one)
  next
    case False
    let ?cats = "List.map_filter id (unique ?col)"
    have groups: "get_groups rows =
        map (\<lambda>category. (Some category,
               filter (\<lambda>r. Booster_Version_Category r = Some category) rows)) ?cats"
      using False by (auto simp: get_groups_def split: list.splits)
    have "distinct ?cats"
      by (rule distinct_map_filter_id) simp
    from mset_groups [OF this, of Booster_Version_Category rows]
    have "mset (concat (map snd (get_groups rows)))
            = mset (filter (\<lambda>r. \<exists>k\<in>set ?cats. Booster_Version_Category r = Some k) rows)"
      by (simp add: groups comp_def)
    also have "filter (\<lambda>r. \<exists>k\<in>set ?cats. Booster_Version_Category r = Some k) rows
            = filter ?shown rows"
    proof (rule filter_cong [OF refl])
      fix r assume r: "r \<in> set rows"
      have not_all: "\<not> list_all (\<lambda>r'. Booster_Version_Category r' = None) rows"
      proof
        assume "list_all (\<lambda>r'. Booster_Version_Category r' = None) rows"
        then have "set (unique ?col) = {None}"
          using r by (auto simp: list_all_iff)
        moreover have "distinct (unique ?col)" by simp
        ultimately have "unique ?col = [None]"
          by (rule distinct_one_member)
        with False show False by blast
      qed
      show "(\<exists>k\<in>set ?cats. Booster_Version_Category r = Some k) = ?shown r"
      proof
        assume "\<exists>k\<in>set ?cats. Booster_Version_Category r = Some k"
        then show "?shown r" by auto
      next
        assume "?shown r"
        with not_all obtain c where c: "Booster_Version_Category r = Some c" by auto
        with r have "Some c \<in> Booster_Version_Category ` set rows"
          by (auto simp: image_iff intro!: bexI [of _ r])
        then have "c \<in> set ?cats"
          by (simp add: set_map_filter)
        with c show "\<exists>k\<in>set ?cats. Booster_Version_Category r = Some k" by blast
      qed
    qed
    finally show ?thesis .
  qed
qed

lemma get_groups_Nil [simp]: "get_groups [] = []"
  by (simp add: get_groups_def unique_def List.map_filter_simps)



section \<open>Rounding an integer to a float\<close>

declare bit_length.simps [simp del]

lemma bit_length_0 [simp]: "bit_length 0 = 0"
  by (simp add: bit_length.simps [of 0])

lemma bit_length_1 [simp]: "bit_length (Suc 0) = Suc 0"
  by (simp add: bit_length.simps [of "Suc 0"])

lemma bit_length_bound: "n < 2 ^ k \<Longrightarrow> bit_length n \<le> k"
proof (induction k arbitrary: n)
  case 0
  then show ?case by simp
next
  case (Suc k)
  show ?case
  proof (cases "n = 0")
    case True
    then show ?thesis by simp
  next
    case False
    from Suc.prems have "n div 2 < 2 ^ k" by simp
    from Suc.IH [OF this] False show ?thesis
      by (simp add: bit_length.simps [of n])
  qed
qed

lemma bit_length_exact: "2 ^ k \<le> n \<Longrightarrow> n < 2 ^ Suc k \<Longrightarrow> bit_length n = Suc k"
proof (induction k arbitrary: n)
  case 0
  then have "n = 1" by simp
  then show ?case by simp
next
  case (Suc k)
  from Suc.prems have "2 ^ k \<le> n div 2" and "n div 2 < 2 ^ Suc k" and "n \<noteq> 0"
    by auto
  from Suc.IH [OF this(1,2)] \<open>n \<noteq> 0\<close> show ?case
    by (simp add: bit_length.simps [of n])
qed

lemma float_of_int_exact: "\<bar>n\<bar> < 2 ^ 53 \<Longrightarrow> float_of_int n = n"
proof -
  assume "\<bar>n\<bar> < 2 ^ 53"
  then have "nat \<bar>n\<bar> < 2 ^ 53"
    by (simp add: nat_less_iff)
  from bit_length_bound [OF this] have "bit_length (nat \<bar>n\<bar>) - 53 = 0"
    by simp
  then show ?thesis
    by (simp add: float_of_int_def Let_def mult_sgn_abs)
qed

lemma float_of_int_big: "float_of_int 18446744073709551617 = 18446744073709551616"
proof -
  have "bit_length 18446744073709551617 = Suc 64"
    by (rule bit_length_exact) simp_all
  then have shift: "bit_length (nat \<bar>18446744073709551617\<bar>) - 53 = 12"
    by simp
  show ?thesis
    unfolding float_of_int_def Let_def shift by simp
qed

lemma float_of_int_up: "float_of_int 9007199254740995 = 9007199254740996"
proof -
  have "bit_length 9007199254740995 = Suc 53"
    by (rule bit_length_exact) simp_all
  then have shift: "bit_length (nat \<bar>9007199254740995\<bar>) - 53 = 1"
    by simp
  show ?thesis
    unfolding float_of_int_def Let_def shift by simp
qed

section \<open>The sample run\<close>

lemma sample_frame: "get_frame (heap sample_state) (spacex_df sample_state) = Some sample_table"
  by (simp add: sample_state_def)

lemma sample_load: "load sample_files ''spacex_launch_dash.csv'' = Inr sample_table"
  by (simp add: load_def os_path_exists_def read_csv_def dropna_def isna_def
      sample_files_def four_columns_def raw_sample_def sample_table_def row_def)

lemma sample_startup: "startup float_of_int Map.empty sample_files = Inr sample_state"
proof -
  have bounds: "series_min (map Payload_Mass sample_table) = Some 500"
    "series_max (map Payload_Mass sample_table) = Some 9600"
    by (simp_all add: series_min_def series_max_def List.map_filter_simps sample_table_def row_def)
  have sites: "sort (unique (List.map_filter Launch_Site sample_table)) = [''A'', ''B'']"
    by (simp add: List.map_filter_simps unique_def sample_table_def row_def)
  show ?thesis
    by (simp add: startup_def CSV_PATH_def sample_load alloc_def bounds sites float_of_int_exact
        sample_state_def)
qed

lemma sample_invoke: "invoke_all [Pie ''A''] sample_state = Some sample_reached"
  by code_simp

lemma big_frame: "get_frame (heap big_state) (spacex_df big_state) = Some big_table"
  by (simp add: big_state_def)

lemma big_startup: "startup float_of_int Map.empty big_files = Inr big_state"
proof -
  have loaded: "load big_files ''spacex_launch_dash.csv'' = Inr big_table"
    by (simp add: load_def os_path_exists_def read_csv_def dropna_def isna_def
        big_files_def four_columns_def big_table_def row_def)
  have bounds: "series_min (map Payload_Mass big_table) = Some 500"
    "series_max (map Payload_Mass big_table) = Some 18446744073709551617"
    by (simp_all add: series_min_def series_max_def List.map_filter_simps big_table_def row_def)
  have sites: "sort (unique (List.map_filter Launch_Site big_table)) = [''A'', ''B'']"
    by (simp add: List.map_filter_simps unique_def big_table_def row_def)
  show ?thesis
    by (simp add: startup_def CSV_PATH_def loaded alloc_def bounds sites float_of_int_exact
        float_of_int_big big_state_def)
qed

section \<open>The Distribution View\<close>

text \<open>
  C1. In a state whose table is \<open>t\<close>, \<^verbatim>\<open>update_pie\<close> returns a pie. For \<^verbatim>\<open>ALL\<close> its names are
  the sites that have a successful record (outcome 1) in the whole table, each once, in
  ascending order, and its values are the numbers of successful records of those sites.
  For a specific site its names are the outcomes that occur among exactly that site's
  records, 0 shown as Failure and 1 as Success, and its values are the numbers of that
  site's records with each outcome. In particular, for a table of four records with
  sites A, A, B, B and outcomes 1, 0, 1, 1 (whatever their payloads and boosters), the
  \<^verbatim>\<open>ALL\<close> pie is A:1 and B:2.
\<close>

theorem update_pie_counts:
  assumes "get_frame (heap s) (spacex_df s) = Some t"
  shows "(\<exists>sites. sorted sites \<and> distinct sites
            \<and> set sites = {site. \<exists>r\<in>set t. Launch_Site r = Some site \<and> Class r = Some 1}
            \<and> map_option (pie_names \<circ> fst) (update_pie ''ALL'' s) = Some (map Str sites)
            \<and> map_option (pie_values \<circ> fst) (update_pie ''ALL'' s) =
                Some (map (\<lambda>site. length (filter (\<lambda>r. Launch_Site r = Some site \<and> Class r = Some 1) t))
                        sites))
       \<and> (selected_site \<noteq> ''ALL'' \<longrightarrow>
           (\<exists>outcomes. sorted outcomes \<and> distinct outcomes
            \<and> set outcomes = {c. \<exists>r\<in>set t. Launch_Site r = Some selected_site \<and> Class r = Some c}
            \<and> map_option (pie_names \<circ> fst) (update_pie selected_site s) =
                Some (map (\<lambda>c. if c = 0 then Str ''Failure'' else if c = 1 then Str ''Success'' else Num c)
                        outcomes)
            \<and> map_option (pie_values \<circ> fst) (update_pie selected_site s) =
                Some (map (\<lambda>c. length (filter (\<lambda>r. Launch_Site r = Some selected_site \<and> Class r = Some c) t))
                        outcomes)))
       \<and> (t = [\<lparr>Launch_Site = Some ''A'', Class = Some 1, Payload_Mass = p1, Booster_Version_Category = b1\<rparr>,
                \<lparr>Launch_Site = Some ''A'', Class = Some 0, Payload_Mass = p2, Booster_Version_Category = b2\<rparr>,
                \<lparr>Launch_Site = Some ''B'', Class = Some 1, Payload_Mass = p3, Booster_Version_Category = b3\<rparr>,
                \<lparr>Launch_Site = Some ''B'', Class = Some 1, Payload_Mass = p4, Booster_Version_Category = b4\<rparr>]
            \<longrightarrow> map_option (\<lambda>(fig, s'). zip (pie_names fig) (pie_values fig)) (update_pie ''ALL'' s)
                  = Some [(Str ''A'', 1), (Str ''B'', 2)])"
proof (intro conjI impI)
  let ?sites = "sort (unique (List.map_filter Launch_Site (filter (\<lambda>r. Class r = Some 1) t)))"
  show "\<exists>sites. sorted sites \<and> distinct sites
            \<and> set sites = {site. \<exists>r\<in>set t. Launch_Site r = Some site \<and> Class r = Some 1}
            \<and> map_option (pie_names \<circ> fst) (update_pie ''ALL'' s) = Some (map Str sites)
            \<and> map_option (pie_values \<circ> fst) (update_pie ''ALL'' s) =
                Some (map (\<lambda>site. length (filter (\<lambda>r. Launch_Site r = Some site \<and> Class r = Some 1) t))
                        sites)"
    by (rule exI [of _ ?sites])
      (auto simp: update_pie_ALL [OF assms] update_layout_def px_pie_def comp_def set_map_filter)
next
  assume site: "selected_site \<noteq> ''ALL''"
  let ?outcomes = "sort (unique (List.map_filter Class (filter (\<lambda>r. Launch_Site r = Some selected_site) t)))"
  show "\<exists>outcomes. sorted outcomes \<and> distinct outcomes
            \<and> set outcomes = {c. \<exists>r\<in>set t. Launch_Site r = Some selected_site \<and> Class r = Some c}
            \<and> map_option (pie_names \<circ> fst) (update_pie selected_site s) =
                Some (map (\<lambda>c. if c = 0 then Str ''Failure'' else if c = 1 then Str ''Success'' else Num c)
                        outcomes)
            \<and> map_option (pie_values \<circ> fst) (update_pie selected_site s) =
                Some (map (\<lambda>c. length (filter (\<lambda>r. Launch_Site r = Some selected_site \<and> Class r = Some c) t))
                        outcomes)"
    by (rule exI [of _ ?outcomes])
      (auto simp: update_pie_site [OF assms site] update_layout_def px_pie_def comp_def set_map_filter
         rename_index_def)
next
  assume "t = [\<lparr>Launch_Site = Some ''A'', Class = Some 1, Payload_Mass = p1, Booster_Version_Category = b1\<rparr>,
                \<lparr>Launch_Site = Some ''A'', Class = Some 0, Payload_Mass = p2, Booster_Version_Category = b2\<rparr>,
                \<lparr>Launch_Site = Some ''B'', Class = Some 1, Payload_Mass = p3, Booster_Version_Category = b3\<rparr>,
                \<lparr>Launch_Site = Some ''B'', Class = Some 1, Payload_Mass = p4, Booster_Version_Category = b4\<rparr>]"
  then show "map_option (\<lambda>(fig, s'). zip (pie_names fig) (pie_values fig)) (update_pie ''ALL'' s)
                  = Some [(Str ''A'', 1), (Str ''B'', 2)]"
    by (simp add: update_pie_ALL [OF assms] update_layout_def px_pie_def comp_def
        List.map_filter_simps unique_def)
qed

text \<open>
  The sample table is such a table: A:1, B:2 for \<^verbatim>\<open>ALL\<close>; one failure and one success
  for site A; two successes for site B.
\<close>

theorem update_pie_counts_witness:
  "get_frame (heap sample_state) (spacex_df sample_state) = Some sample_table
   \<and> map_option (\<lambda>(fig, s'). zip (pie_names fig) (pie_values fig)) (update_pie ''ALL'' sample_state)
       = Some [(Str ''A'', 1), (Str ''B'', 2)]
   \<and> map_option (\<lambda>(fig, s'). zip (pie_names fig) (pie_values fig)) (update_pie ''A'' sample_state)
       = Some [(Str ''Failure'', 1), (Str ''Success'', 1)]
   \<and> map_option (\<lambda>(fig, s'). zip (pie_names fig) (pie_values fig)) (update_pie ''B'' sample_state)
       = Some [(Str ''Success'', 2)]"
proof -
  have frame: "get_frame (heap sample_state) (spacex_df sample_state) = Some sample_table"
    by (simp add: sample_state_def)
  have shape: "sample_table =
      [\<lparr>Launch_Site = Some ''A'', Class = Some 1, Payload_Mass = Some 500,
        Booster_Version_Category = Some ''v1.0''\<rparr>,
       \<lparr>Launch_Site = Some ''A'', Class = Some 0, Payload_Mass = Some 2500,
        Booster_Version_Category = Some ''v1.1''\<rparr>,
       \<lparr>Launch_Site = Some ''B'', Class = Some 1, Payload_Mass = Some 3000,
        Booster_Version_Category = None\<rparr>,
       \<lparr>Launch_Site = Some ''B'', Class = Some 1, Payload_Mass = Some 9600,
        Booster_Version_Category = Some ''B4''\<rparr>]"
    by (simp add: sample_table_def row_def)
  have site_A: "map_option (\<lambda>(fig, s'). zip (pie_names fig) (pie_values fig)) (update_pie ''A'' sample_state)
       = Some [(Str ''Failure'', 1), (Str ''Success'', 1)]"
    by code_simp
  have site_B: "map_option (\<lambda>(fig, s'). zip (pie_names fig) (pie_values fig)) (update_pie ''B'' sample_state)
       = Some [(Str ''Success'', 2)]"
    by code_simp
  from update_pie_counts [OF frame, of "''A''"] shape
  have "map_option (\<lambda>(fig, s'). zip (pie_names fig) (pie_values fig)) (update_pie ''ALL'' sample_state)
       = Some [(Str ''A'', 1), (Str ''B'', 2)]"
    by blast
  with frame site_A site_B show ?thesis by simp
qed

text \<open>
  C5, as the spec states it: for every valid selected site the values of the pie sum to
  the number of records matching the selection. For \<^verbatim>\<open>ALL\<close> every record of the table
  matches, but the pie counts the successful ones only: on the sample table, which has
  four records, its values sum to three.
\<close>

theorem pie_of_all_sites_counts_successes_only:
  "get_frame (heap sample_state) (spacex_df sample_state) = Some sample_table
   \<and> length sample_table = 4
   \<and> map_option (sum_list \<circ> pie_values \<circ> fst) (update_pie ''ALL'' sample_state) = Some 3"
proof -
  have "map_option (sum_list \<circ> pie_values \<circ> fst) (update_pie ''ALL'' sample_state) = Some 3"
    by code_simp
  then show ?thesis
    by (simp add: sample_state_def sample_table_def)
qed

text \<open>
  C5, amended. In every state the application reaches (start-up, then any calls of the
  callbacks), the values of the pie sum, for a specific site, to the number of records
  of that site, and for \<^verbatim>\<open>ALL\<close> to the number of successful records (outcome 1) of the
  table.
\<close>

theorem pie_counts_sum_to_matching_records:
  assumes "startup float environ files = Inr s0" and "invoke_all calls s0 = Some s"
  shows "\<exists>t. get_frame (heap s) (spacex_df s) = Some t
          \<and> map_option (sum_list \<circ> pie_values \<circ> fst) (update_pie selected_site s) =
              Some (length (filter (\<lambda>r. if selected_site = ''ALL'' then Class r = Some 1
                                         else Launch_Site r = Some selected_site) t))"
proof -
  from reached_state [OF assms] obtain t where
    loaded: "load files (CSV_PATH environ) = Inr t" and
    frame: "get_frame (heap s) (spacex_df s) = Some t"
    by blast
  have complete: "Launch_Site r \<noteq> None \<and> Class r \<noteq> None" if "r \<in> set t" for r
    using loaded_rows_complete [OF loaded that] by simp
  show ?thesis
  proof (cases "selected_site = ''ALL''")
    case True
    have "filter (\<lambda>r. Class r = Some 1 \<and> Launch_Site r \<noteq> None) t
            = filter (\<lambda>r. if selected_site = ''ALL'' then Class r = Some 1
                            else Launch_Site r = Some selected_site) t"
      by (rule filter_cong) (use complete True in auto)
    with pie_values_ALL [OF frame] frame True show ?thesis by auto
  next
    case False
    have "filter (\<lambda>r. Launch_Site r = Some selected_site \<and> Class r \<noteq> None) t
            = filter (\<lambda>r. if selected_site = ''ALL'' then Class r = Some 1
                            else Launch_Site r = Some selected_site) t"
      by (rule filter_cong) (use complete False in auto)
    with pie_values_site [OF frame False] frame show ?thesis by auto
  qed
qed

theorem pie_counts_sum_to_matching_records_witness:
  "startup float_of_int Map.empty sample_files = Inr sample_state
   \<and> invoke_all [Pie ''A''] sample_state = Some sample_reached
   \<and> get_frame (heap sample_reached) (spacex_df sample_reached) = Some sample_table
   \<and> map_option (sum_list \<circ> pie_values \<circ> fst) (update_pie ''ALL'' sample_reached) = Some 3
   \<and> map_option (sum_list \<circ> pie_values \<circ> fst) (update_pie ''A'' sample_reached) = Some 2
   \<and> map_option (sum_list \<circ> pie_values \<circ> fst) (update_pie ''B'' sample_reached) = Some 2"
proof -
  have frame: "get_frame (heap sample_reached) (spacex_df sample_reached) = Some sample_table"
    by (simp add: sample_reached_def)
  have counts:
    "length (filter (\<lambda>r. Class r = Some 1) sample_table) = 3"
    "length (filter (\<lambda>r. Launch_Site r = Some ''A'') sample_table) = 2"
    "length (filter (\<lambda>r. Launch_Site r = Some ''B'') sample_table) = 2"
    by (simp_all add: sample_table_def row_def)
  from pie_counts_sum_to_matching_records [OF sample_startup sample_invoke, of "''ALL''"]
    pie_counts_sum_to_matching_records [OF sample_startup sample_invoke, of "''A''"]
    pie_counts_sum_to_matching_records [OF sample_startup sample_invoke, of "''B''"]
  have "map_option (sum_list \<circ> pie_values \<circ> fst) (update_pie ''ALL'' sample_reached) = Some 3
   \<and> map_option (sum_list \<circ> pie_values \<circ> fst) (update_pie ''A'' sample_reached) = Some 2
   \<and> map_option (sum_list \<circ> pie_values \<circ> fst) (update_pie ''B'' sample_reached) = Some 2"
    by (simp add: frame counts)
  with sample_startup sample_invoke frame show ?thesis by blast
qed


section \<open>The Correlation View\<close>

text \<open>
  C2, as the spec states it: the callback keeps exactly the records in the range (and of
  the selected site), and every kept record is projected to a (payload, outcome) pair.
  The first half holds; the second does not. On the sample table with \<^verbatim>\<open>ALL\<close> and the
  range \<open>[2500, 3000]\<close> two records are kept, and the figure has the point of one: the
  other has no booster category, and plotly's grouping by colour leaves it out.
\<close>

theorem scatter_omits_kept_record_without_booster:
  "map_option (\<lambda>(filtered, s'). get_frame (heap s') filtered)
       (scatter_filtered ''ALL'' (Some 2500, Some 3000) sample_state)
     = Some (Some [row ''A'' 0 2500 ''v1.1'', no_booster_row])
   \<and> map_option (\<lambda>(fig, s'). zip (scatter_x fig) (scatter_y fig))
       (update_scatter ''ALL'' (Some 2500, Some 3000) sample_state)
     = Some [(Some 2500, Some 0)]"
proof -
  have kept: "filter (\<lambda>r. nan_le (Some 2500) (Payload_Mass r) \<and> nan_le (Payload_Mass r) (Some 3000)
                  \<and> (''ALL'' = ''ALL'' \<or> Launch_Site r = Some ''ALL'')) sample_table
                = [row ''A'' 0 2500 ''v1.1'', no_booster_row]"
    by (simp add: sample_table_def row_def no_booster_row_def nan_le_def)
  have groups: "get_groups [row ''A'' 0 2500 ''v1.1'', no_booster_row]
                  = [(Some ''v1.1'', [row ''A'' 0 (2500 :: int) ''v1.1''])]"
    by (simp add: get_groups_def unique_def List.map_filter_simps row_def no_booster_row_def)
  from scatter_run [OF sample_frame, of "''ALL''" "Some 2500" "Some 3000"]
  show ?thesis
    unfolding kept groups by (auto simp: row_def)
qed

text \<open>
  C2, amended. In a state whose table is \<open>t\<close>, \<^verbatim>\<open>update_scatter\<close> with the range \<open>[lo, hi]\<close>
  binds \<^verbatim>\<open>filtered\<close> to exactly the records of \<open>t\<close> whose payload \<open>p\<close> satisfies
  \<open>lo \<le> p \<le> hi\<close>, both bounds included, and whose site is the selected one when the
  selection is not \<^verbatim>\<open>ALL\<close>, in table order. Every kept record that has a booster
  category is projected to a (payload, outcome) pair of the figure, one point per
  record, and the figure has no point that is not the pair of a kept record.
\<close>

theorem update_scatter_keeps_range_and_site:
  assumes "get_frame (heap s) (spacex_df s) = Some t"
  shows "\<exists>kept filtered s' fig.
           kept = filter (\<lambda>r. (\<exists>p. Payload_Mass r = Some p \<and> lo \<le> p \<and> p \<le> hi)
                              \<and> (selected_site = ''ALL'' \<or> Launch_Site r = Some selected_site)) t
         \<and> scatter_filtered selected_site (Some lo, Some hi) s = Some (filtered, s')
         \<and> get_frame (heap s') filtered = Some kept
         \<and> update_scatter selected_site (Some lo, Some hi) s = Some (fig, s')
         \<and> mset (map (\<lambda>r. (Payload_Mass r, Class r))
                    (filter (\<lambda>r. \<exists>c. Booster_Version_Category r = Some c) kept))
               \<subseteq># mset (zip (scatter_x fig) (scatter_y fig))
         \<and> mset (zip (scatter_x fig) (scatter_y fig))
               \<subseteq># mset (map (\<lambda>r. (Payload_Mass r, Class r)) kept)"
proof -
  let ?kept = "filter (\<lambda>r. (\<exists>p. Payload_Mass r = Some p \<and> lo \<le> p \<and> p \<le> hi)
                              \<and> (selected_site = ''ALL'' \<or> Launch_Site r = Some selected_site)) t"
  let ?plotted = "concat (map snd (get_groups ?kept))"
  let ?pair = "\<lambda>r. (Payload_Mass r, Class r)"
  from scatter_run [OF assms, of selected_site "Some lo" "Some hi"]
  obtain filtered s' fig where
    run: "scatter_filtered selected_site (Some lo, Some hi) s = Some (filtered, s')" and
    got: "get_frame (heap s') filtered = Some ?kept" and
    fig: "update_scatter selected_site (Some lo, Some hi) s = Some (fig, s')" and
    x: "scatter_x fig = map Payload_Mass ?plotted" and
    y: "scatter_y fig = map Class ?plotted"
    unfolding in_range_filter by blast
  have "zip (scatter_x fig) (scatter_y fig) = map ?pair ?plotted"
    unfolding x y by (rule zip_map_same)
  then have points: "mset (zip (scatter_x fig) (scatter_y fig)) = image_mset ?pair (mset ?plotted)"
    by simp
  have plotted: "mset ?plotted =
      filter_mset (\<lambda>r. Booster_Version_Category r \<noteq> None
                         \<or> list_all (\<lambda>r'. Booster_Version_Category r' = None) ?kept) (mset ?kept)"
    by (simp only: mset_get_groups mset_filter)
  have "filter_mset (\<lambda>r. \<exists>c. Booster_Version_Category r = Some c) (mset ?kept) \<subseteq># mset ?plotted"
    unfolding plotted by (rule filter_mset_mono_strong) auto
  then have lower: "mset (map ?pair (filter (\<lambda>r. \<exists>c. Booster_Version_Category r = Some c) ?kept))
               \<subseteq># mset (zip (scatter_x fig) (scatter_y fig))"
    unfolding points mset_map mset_filter by (rule image_mset_subseteq_mono)
  have "mset ?plotted \<subseteq># mset ?kept"
    unfolding plotted by (rule multiset_filter_subset)
  then have upper: "mset (zip (scatter_x fig) (scatter_y fig)) \<subseteq># mset (map ?pair ?kept)"
    unfolding points mset_map by (rule image_mset_subseteq_mono)
  from run got fig lower upper show ?thesis by blast
qed

theorem update_scatter_keeps_range_and_site_witness:
  "get_frame (heap sample_state) (spacex_df sample_state) = Some sample_table
   \<and> (\<exists>filtered s' fig.
         scatter_filtered ''ALL'' (Some 2500, Some 3000) sample_state = Some (filtered, s')
       \<and> get_frame (heap s') filtered = Some [row ''A'' 0 2500 ''v1.1'', no_booster_row]
       \<and> update_scatter ''ALL'' (Some 2500, Some 3000) sample_state = Some (fig, s')
       \<and> {#(Some 2500, Some 0)#} \<subseteq># mset (zip (scatter_x fig) (scatter_y fig))
       \<and> mset (zip (scatter_x fig) (scatter_y fig))
            \<subseteq># {#(Some 2500, Some 0), (Some 3000, Some 1)#})
   \<and> (\<exists>filtered s' fig.
         scatter_filtered ''A'' (Some 0, Some 3000) sample_state = Some (filtered, s')
       \<and> get_frame (heap s') filtered = Some [row ''A'' 1 500 ''v1.0'', row ''A'' 0 2500 ''v1.1'']
       \<and> update_scatter ''A'' (Some 0, Some 3000) sample_state = Some (fig, s')
       \<and> {#(Some 500, Some 1), (Some 2500, Some 0)#}
            \<subseteq># mset (zip (scatter_x fig) (scatter_y fig))
       \<and> mset (zip (scatter_x fig) (scatter_y fig))
            \<subseteq># {#(Some 500, Some 1), (Some 2500, Some 0)#})"
proof -
  have at_ALL: "filter (\<lambda>r. (\<exists>p. Payload_Mass r = Some p \<and> 2500 \<le> p \<and> p \<le> 3000)
                \<and> (''ALL'' = ''ALL'' \<or> Launch_Site r = Some ''ALL'')) sample_table
        = [row ''A'' 0 2500 ''v1.1'', no_booster_row]"
    by (simp add: sample_table_def row_def no_booster_row_def)
  have at_A: "filter (\<lambda>r. (\<exists>p. Payload_Mass r = Some p \<and> 0 \<le> p \<and> p \<le> 3000)
                \<and> (''A'' = ''ALL'' \<or> Launch_Site r = Some ''A'')) sample_table
        = [row ''A'' 1 500 ''v1.0'', row ''A'' 0 2500 ''v1.1'']"
    by (simp add: sample_table_def row_def)
  from update_scatter_keeps_range_and_site [OF sample_frame, of 2500 3000 "''ALL''",
      unfolded at_ALL]
  have first: "\<exists>filtered s' fig.
         scatter_filtered ''ALL'' (Some 2500, Some 3000) sample_state = Some (filtered, s')
       \<and> get_frame (heap s') filtered = Some [row ''A'' 0 2500 ''v1.1'', no_booster_row]
       \<and> update_scatter ''ALL'' (Some 2500, Some 3000) sample_state = Some (fig, s')
       \<and> {#(Some 2500, Some 0)#} \<subseteq># mset (zip (scatter_x fig) (scatter_y fig))
       \<and> mset (zip (scatter_x fig) (scatter_y fig))
            \<subseteq># {#(Some 2500, Some 0), (Some 3000, Some 1)#}"
    by (auto simp: no_booster_row_def row_def)
  from update_scatter_keeps_range_and_site [OF sample_frame, of 0 3000 "''A''",
      unfolded at_A]
  have second: "\<exists>filtered s' fig.
         scatter_filtered ''A'' (Some 0, Some 3000) sample_state = Some (filtered, s')
       \<and> get_frame (heap s') filtered = Some [row ''A'' 1 500 ''v1.0'', row ''A'' 0 2500 ''v1.1'']
       \<and> update_scatter ''A'' (Some 0, Some 3000) sample_state = Some (fig, s')
       \<and> {#(Some 500, Some 1), (Some 2500, Some 0)#}
            \<subseteq># mset (zip (scatter_x fig) (scatter_y fig))
       \<and> mset (zip (scatter_x fig) (scatter_y fig))
            \<subseteq># {#(Some 500, Some 1), (Some 2500, Some 0)#}"
    by (auto simp: row_def)
  from sample_frame first second show ?thesis by blast
qed

text \<open>
  C3, as the spec states it: for every loaded table, the filter with \<^verbatim>\<open>ALL\<close> and the full
  observed payload bounds returns the table unchanged. The bounds the script computes
  are \<^verbatim>\<open>float\<close> of the observed minimum and maximum. On a table of integers whose largest
  payload is \<open>2 ^ 64 + 1\<close> the upper bound is \<open>2 ^ 64\<close>, and the record with the largest
  payload is not kept: of the two records of the table the filter returns one.
\<close>

theorem full_range_drops_record_beyond_float:
  "startup float_of_int Map.empty big_files = Inr big_state
   \<and> get_frame (heap big_state) (spacex_df big_state)
       = Some [row ''A'' 1 500 ''v1.0'', row ''B'' 1 18446744073709551617 ''B5'']
   \<and> payload_min big_state = Some 500
   \<and> payload_max big_state = Some 18446744073709551616
   \<and> map_option (\<lambda>(filtered, s'). get_frame (heap s') filtered)
       (scatter_filtered ''ALL'' (payload_min big_state, payload_max big_state) big_state)
     = Some (Some [row ''A'' 1 500 ''v1.0''])"
proof -
  have bounds: "payload_min big_state = Some 500"
    "payload_max big_state = Some 18446744073709551616"
    by (simp_all add: big_state_def)
  have kept: "filter (\<lambda>r. nan_le (Some 500) (Payload_Mass r)
                  \<and> nan_le (Payload_Mass r) (Some 18446744073709551616)
                  \<and> (''ALL'' = ''ALL'' \<or> Launch_Site r = Some ''ALL'')) big_table
                = [row ''A'' 1 500 ''v1.0'']"
    by (simp add: big_table_def row_def nan_le_def)
  from scatter_run [OF big_frame, of "''ALL''" "Some 500" "Some 18446744073709551616"]
  have "map_option (\<lambda>(filtered, s'). get_frame (heap s') filtered)
       (scatter_filtered ''ALL'' (Some 500, Some 18446744073709551616) big_state)
     = Some (Some [row ''A'' 1 500 ''v1.0''])"
    unfolding kept by auto
  with big_startup big_frame show ?thesis
    by (simp add: bounds big_table_def)
qed

text \<open>
  C3, amended. In every state the application reaches whose table has an observed
  minimum and maximum payload that \<^verbatim>\<open>float\<close> leaves unchanged (as on a float64 column),
  the filter with \<^verbatim>\<open>ALL\<close> and the range \<^verbatim>\<open>[payload_min, payload_max]\<close> computed at start-up
  returns the loaded table unchanged.
\<close>

theorem full_range_all_sites_is_identity:
  assumes "startup float environ files = Inr s0" and "invoke_all calls s0 = Some s"
    and "get_frame (heap s) (spacex_df s) = Some t"
    and "map_option float (series_min (map Payload_Mass t)) = series_min (map Payload_Mass t)"
    and "map_option float (series_max (map Payload_Mass t)) = series_max (map Payload_Mass t)"
  shows "\<exists>filtered s'.
            scatter_filtered ''ALL'' (payload_min s, payload_max s) s = Some (filtered, s')
          \<and> get_frame (heap s') filtered = Some t"
proof -
  from reached_state [OF assms(1,2)] assms(3) obtain new where
    loaded: "load files (CSV_PATH environ) = Inr t" and
    s: "s = \<lparr>heap = DataFrame t # new, spacex_df = 0,
                   payload_min = map_option float (series_min (map Payload_Mass t)),
                   payload_max = map_option float (series_max (map Payload_Mass t)),
                   launch_sites = sort (unique (List.map_filter Launch_Site t))\<rparr>"
    by auto
  have bounds: "payload_min s = series_min (map Payload_Mass t)"
    "payload_max s = series_max (map Payload_Mass t)"
    using assms(4,5) by (simp_all add: s)
  have all: "filter (\<lambda>r. nan_le (payload_min s) (Payload_Mass r) \<and> nan_le (Payload_Mass r) (payload_max s)
               \<and> (''ALL'' = ''ALL'' \<or> Launch_Site r = Some ''ALL'')) t = t"
    unfolding bounds using full_range_keeps_all [of t] loaded_rows_complete [OF loaded]
    by simp
  from scatter_run [OF assms(3), of "''ALL''" "payload_min s" "payload_max s"]
  show ?thesis
    unfolding all by blast
qed

theorem full_range_all_sites_is_identity_witness:
  "startup float_of_int Map.empty sample_files = Inr sample_state
   \<and> invoke_all [Pie ''A''] sample_state = Some sample_reached
   \<and> get_frame (heap sample_reached) (spacex_df sample_reached) = Some sample_table
   \<and> map_option float_of_int (series_min (map Payload_Mass sample_table))
       = series_min (map Payload_Mass sample_table)
   \<and> map_option float_of_int (series_max (map Payload_Mass sample_table))
       = series_max (map Payload_Mass sample_table)
   \<and> payload_min sample_reached = Some 500 \<and> payload_max sample_reached = Some 9600
   \<and> (\<exists>filtered s'.
          scatter_filtered ''ALL'' (Some 500, Some 9600) sample_reached = Some (filtered, s')
        \<and> get_frame (heap s') filtered = Some sample_table)"
proof -
  have bounds: "payload_min sample_reached = Some 500" "payload_max sample_reached = Some 9600"
    and frame: "get_frame (heap sample_reached) (spacex_df sample_reached) = Some sample_table"
    by (simp_all add: sample_reached_def)
  have observed: "series_min (map Payload_Mass sample_table) = Some 500"
    "series_max (map Payload_Mass sample_table) = Some 9600"
    by (simp_all add: series_min_def series_max_def List.map_filter_simps sample_table_def row_def)
  have fixed: "map_option float_of_int (series_min (map Payload_Mass sample_table))
       = series_min (map Payload_Mass sample_table)"
    "map_option float_of_int (series_max (map Payload_Mass sample_table))
       = series_max (map Payload_Mass sample_table)"
    by (simp_all add: observed float_of_int_exact)
  from full_range_all_sites_is_identity [OF sample_startup sample_invoke frame fixed]
  have "\<exists>filtered s'.
          scatter_filtered ''ALL'' (Some 500, Some 9600) sample_reached = Some (filtered, s')
        \<and> get_frame (heap s') filtered = Some sample_table"
    by (simp add: bounds)
  with sample_startup sample_invoke frame fixed bounds show ?thesis by blast
qed

text \<open>
  C4. When no record of the table has its payload in \<open>[lo, hi]\<close>, the filtered frame is
  empty and the figure has no point, whatever the selected site; in particular for the
  range \<open>[0, 0]\<close> when every payload is greater than 0.
\<close>

theorem empty_range_gives_empty_scatter:
  fixes s :: "('p :: {linorder, zero}) state"
  assumes "get_frame (heap s) (spacex_df s) = Some t"
  shows "(list_all (\<lambda>r. case Payload_Mass r of None \<Rightarrow> True | Some p \<Rightarrow> p < lo \<or> hi < p) t \<longrightarrow>
            (\<exists>filtered s' fig.
                scatter_filtered selected_site (Some lo, Some hi) s = Some (filtered, s')
              \<and> get_frame (heap s') filtered = Some []
              \<and> update_scatter selected_site (Some lo, Some hi) s = Some (fig, s')
              \<and> scatter_x fig = [] \<and> scatter_y fig = []))
       \<and> (list_all (\<lambda>r. case Payload_Mass r of None \<Rightarrow> True | Some p \<Rightarrow> 0 < p) t \<longrightarrow>
            (\<exists>filtered s' fig.
                scatter_filtered selected_site (Some 0, Some 0) s = Some (filtered, s')
              \<and> get_frame (heap s') filtered = Some []
              \<and> update_scatter selected_site (Some 0, Some 0) s = Some (fig, s')
              \<and> scatter_x fig = [] \<and> scatter_y fig = []))"
proof -
  have outside: "\<exists>filtered s' fig.
                scatter_filtered selected_site (Some a, Some b) s = Some (filtered, s')
              \<and> get_frame (heap s') filtered = Some []
              \<and> update_scatter selected_site (Some a, Some b) s = Some (fig, s')
              \<and> scatter_x fig = [] \<and> scatter_y fig = []"
    if none: "list_all (\<lambda>r. case Payload_Mass r of None \<Rightarrow> True | Some p \<Rightarrow> p < a \<or> b < p) t"
    for a b :: 'p
  proof -
    have "\<not> (nan_le (Some a) (Payload_Mass r) \<and> nan_le (Payload_Mass r) (Some b))"
      if "r \<in> set t" for r
    proof -
      from none that have "case Payload_Mass r of None \<Rightarrow> True | Some p \<Rightarrow> p < a \<or> b < p"
        by (simp add: list_all_iff)
      then show ?thesis
        by (auto simp: nan_le_Some split: option.splits)
    qed
    then have "filter (\<lambda>r. nan_le (Some a) (Payload_Mass r) \<and> nan_le (Payload_Mass r) (Some b)
                          \<and> (selected_site = ''ALL'' \<or> Launch_Site r = Some selected_site)) t = []"
      unfolding filter_empty_conv by blast
    with scatter_run [OF assms, of selected_site "Some a" "Some b"] show ?thesis
      by auto
  qed
  have positive: "list_all (\<lambda>r. case Payload_Mass r of None \<Rightarrow> True | Some p \<Rightarrow> p < 0 \<or> 0 < p) t"
    if "list_all (\<lambda>r. case Payload_Mass r of None \<Rightarrow> True | Some p \<Rightarrow> 0 < p) t"
    using that by (auto simp: list_all_iff split: option.splits)
  from outside [of lo hi] outside [of 0 0] positive show ?thesis
    by blast
qed

theorem empty_range_gives_empty_scatter_witness:
  "get_frame (heap sample_state) (spacex_df sample_state) = Some sample_table
   \<and> list_all (\<lambda>r. case Payload_Mass r of None \<Rightarrow> True | Some p \<Rightarrow> p < 10000 \<or> 20000 < p) sample_table
   \<and> list_all (\<lambda>r. case Payload_Mass r of None \<Rightarrow> True | Some p \<Rightarrow> 0 < p) sample_table
   \<and> (\<exists>filtered s' fig.
          scatter_filtered ''ALL'' (Some 10000, Some 20000) sample_state = Some (filtered, s')
        \<and> get_frame (heap s') filtered = Some []
        \<and> update_scatter ''ALL'' (Some 10000, Some 20000) sample_state = Some (fig, s')
        \<and> scatter_x fig = [] \<and> scatter_y fig = [])
   \<and> (\<exists>filtered s' fig.
          scatter_filtered ''ALL'' (Some 0, Some 0) sample_state = Some (filtered, s')
        \<and> get_frame (heap s') filtered = Some []
        \<and> update_scatter ''ALL'' (Some 0, Some 0) sample_state = Some (fig, s')
        \<and> scatter_x fig = [] \<and> scatter_y fig = [])"
proof -
  have frame: "get_frame (heap sample_state) (spacex_df sample_state) = Some sample_table"
    by (simp add: sample_state_def)
  have outside: "list_all (\<lambda>r. case Payload_Mass r of None \<Rightarrow> True | Some p \<Rightarrow> p < 10000 \<or> 20000 < p)
                   sample_table"
    by (simp add: sample_table_def row_def)
  have positive: "list_all (\<lambda>r. case Payload_Mass r of None \<Rightarrow> True | Some p \<Rightarrow> 0 < p) sample_table"
    by (simp add: sample_table_def row_def)
  from empty_range_gives_empty_scatter [OF frame, of 10000 20000 "''ALL''"] outside positive frame
  show ?thesis by blast
qed



section \<open>The table after load\<close>

text \<open>
  C9. In a state whose \<^verbatim>\<open>spacex_df\<close> holds the table \<open>t\<close>, \<^verbatim>\<open>update_pie\<close> and
  \<^verbatim>\<open>update_scatter\<close>, for any selected site and any range, return, and leave \<^verbatim>\<open>spacex_df\<close>
  bound to the same object, that object still holding \<open>t\<close>, and every object that
  existed before the call as it was; so does any sequence of calls.
\<close>

theorem callbacks_leave_table_unchanged:
  assumes "get_frame (heap s) (spacex_df s) = Some t"
  shows "(\<exists>fig s'. update_pie selected_site s = Some (fig, s')
            \<and> spacex_df s' = spacex_df s
            \<and> get_frame (heap s') (spacex_df s') = Some t
            \<and> take (length (heap s)) (heap s') = heap s)
       \<and> (\<exists>fig s'. update_scatter selected_site payload_range s = Some (fig, s')
            \<and> spacex_df s' = spacex_df s
            \<and> get_frame (heap s') (spacex_df s') = Some t
            \<and> take (length (heap s)) (heap s') = heap s)
       \<and> (\<exists>s'. invoke_all calls s = Some s'
            \<and> spacex_df s' = spacex_df s
            \<and> get_frame (heap s') (spacex_df s') = Some t
            \<and> take (length (heap s)) (heap s') = heap s)"
proof -
  have kept: "spacex_df s' = spacex_df s \<and> get_frame (heap s') (spacex_df s') = Some t
                \<and> take (length (heap s)) (heap s') = heap s"
    if "s' = s\<lparr>heap := heap s @ new\<rparr>" for s' new
    using that assms by simp
  from update_pie_appends [OF assms, of selected_site]
  obtain fig1 new1 where "update_pie selected_site s = Some (fig1, s\<lparr>heap := heap s @ new1\<rparr>)"
    by blast
  with kept [of "s\<lparr>heap := heap s @ new1\<rparr>" new1] have pie:
    "\<exists>fig s'. update_pie selected_site s = Some (fig, s')
            \<and> spacex_df s' = spacex_df s
            \<and> get_frame (heap s') (spacex_df s') = Some t
            \<and> take (length (heap s)) (heap s') = heap s"
    by blast
  from update_scatter_appends [OF assms, of selected_site payload_range]
  obtain fig2 new2 where
    "update_scatter selected_site payload_range s = Some (fig2, s\<lparr>heap := heap s @ new2\<rparr>)"
    by blast
  with kept [of "s\<lparr>heap := heap s @ new2\<rparr>" new2] have scatter:
    "\<exists>fig s'. update_scatter selected_site payload_range s = Some (fig, s')
            \<and> spacex_df s' = spacex_df s
            \<and> get_frame (heap s') (spacex_df s') = Some t
            \<and> take (length (heap s)) (heap s') = heap s"
    by blast
  from invoke_all_appends [OF assms, of calls]
  obtain new3 where "invoke_all calls s = Some (s\<lparr>heap := heap s @ new3\<rparr>)"
    by blast
  with kept [of "s\<lparr>heap := heap s @ new3\<rparr>" new3] have every:
    "\<exists>s'. invoke_all calls s = Some s'
            \<and> spacex_df s' = spacex_df s
            \<and> get_frame (heap s') (spacex_df s') = Some t
            \<and> take (length (heap s)) (heap s') = heap s"
    by blast
  from pie scatter every show ?thesis by blast
qed

theorem callbacks_leave_table_unchanged_witness:
  "get_frame (heap sample_state) (spacex_df sample_state) = Some sample_table
   \<and> (\<exists>fig s'. update_pie ''B'' sample_state = Some (fig, s')
         \<and> get_frame (heap s') (spacex_df s') = Some sample_table)
   \<and> (\<exists>fig s'. update_scatter ''B'' (Some 0, Some 5000) sample_state = Some (fig, s')
         \<and> get_frame (heap s') (spacex_df s') = Some sample_table)
   \<and> (\<exists>s'. invoke_all [Pie ''ALL'', Scatter ''A'' (Some 0, Some 5000), Pie ''B''] sample_state = Some s'
         \<and> get_frame (heap s') (spacex_df s') = Some sample_table)"
proof -
  have frame: "get_frame (heap sample_state) (spacex_df sample_state) = Some sample_table"
    by (simp add: sample_state_def)
  from callbacks_leave_table_unchanged [OF frame, of "''B''" "(Some 0, Some 5000)"
      "[Pie ''ALL'', Scatter ''A'' (Some 0, Some 5000), Pie ''B'']"] frame
  show ?thesis by blast
qed


section \<open>Properties of loading\<close>

text \<open>
  C6, as the spec states it: loading fails, with the one error DataUnavailable, exactly
  when the file is absent, and when the file exists the table is loaded and no error is
  raised. The second half does not hold: an empty file at the default path exists, and
  loading fails on it with the \<^verbatim>\<open>EmptyDataError\<close> of \<^verbatim>\<open>pd.read_csv\<close>; a table without the
  payload column exists, and loading fails on it with the \<^verbatim>\<open>KeyError\<close> of \<^verbatim>\<open>dropna\<close>.
\<close>

theorem load_of_existing_file_can_fail:
  "os_path_exists empty_file (CSV_PATH Map.empty)
   \<and> load empty_file (CSV_PATH Map.empty) = Inl (ReadError EmptyDataError)
   \<and> os_path_exists no_payload_column (CSV_PATH Map.empty)
   \<and> load no_payload_column (CSV_PATH Map.empty) = Inl (KeyError [''Payload Mass (kg)''])"
  by (simp add: load_def os_path_exists_def read_csv_def dropna_def CSV_PATH_def
      empty_file_def no_payload_column_def)

text \<open>
  C6, amended. Loading fails with \<^verbatim>\<open>FileNotFoundError\<close> (the spec's DataUnavailable)
  exactly when the file at the configured path is absent. When the file exists and
  pandas reads it as a table that has the site, outcome and payload columns, the table
  loaded is that table without its incomplete records, and no error is raised. When
  the file exists and pandas cannot read it, or the table it reads lacks one of the
  three columns, loading fails with the error of pandas, which the script lets through.
\<close>

theorem load_fails_iff_file_absent:
  "((\<exists>p. load files (CSV_PATH environ) = Inl (FileNotFoundError p))
       = (files (CSV_PATH environ) = None))
   \<and> (files (CSV_PATH environ) = None \<longrightarrow>
         load files (CSV_PATH environ) = Inl (FileNotFoundError (CSV_PATH environ)))
   \<and> (files (CSV_PATH environ) = Some (Table columns raw)
        \<and> set [''Launch Site'', ''class'', ''Payload Mass (kg)''] \<subseteq> set columns \<longrightarrow>
         load files (CSV_PATH environ) =
           Inr (filter (\<lambda>r. Launch_Site r \<noteq> None \<and> Class r \<noteq> None \<and> Payload_Mass r \<noteq> None) raw))
   \<and> (files (CSV_PATH environ) = Some (Unreadable e) \<longrightarrow>
         load files (CSV_PATH environ) = Inl (ReadError e))
   \<and> (files (CSV_PATH environ) = Some (Table columns raw)
        \<and> \<not> set [''Launch Site'', ''class'', ''Payload Mass (kg)''] \<subseteq> set columns \<longrightarrow>
         load files (CSV_PATH environ) =
           Inl (KeyError (filter (\<lambda>name. name \<notin> set columns)
                            [''Launch Site'', ''class'', ''Payload Mass (kg)''])))"
proof -
  let ?path = "CSV_PATH environ"
  have absent: "(\<exists>p. load files ?path = Inl (FileNotFoundError p)) = (files ?path = None)"
  proof (cases "files ?path")
    case None
    then show ?thesis by (simp add: load_absent)
  next
    case (Some found)
    show ?thesis
    proof (cases found)
      case (Unreadable e')
      with Some show ?thesis by (simp add: load_unreadable)
    next
      case (Table columns' raw')
      with Some show ?thesis
        by (cases "set [''Launch Site'', ''class'', ''Payload Mass (kg)''] \<subseteq> set columns'")
          (simp_all add: load_present load_lacking del: set_simps)
    qed
  qed
  from absent load_absent [of files ?path] load_present [of files ?path columns raw]
    load_unreadable [of files ?path e] load_lacking [of files ?path columns raw]
  show ?thesis by blast
qed

theorem load_fails_iff_file_absent_witness:
  "sample_files (CSV_PATH Map.empty) = Some (Table four_columns raw_sample)
   \<and> set [''Launch Site'', ''class'', ''Payload Mass (kg)''] \<subseteq> set four_columns
   \<and> load sample_files (CSV_PATH Map.empty) = Inr sample_table
   \<and> sample_files (CSV_PATH [''SPACEX_DASH_CSV'' \<mapsto> ''other.csv'']) = None
   \<and> load sample_files (CSV_PATH [''SPACEX_DASH_CSV'' \<mapsto> ''other.csv''])
       = Inl (FileNotFoundError ''other.csv'')
   \<and> empty_file (CSV_PATH Map.empty) = Some (Unreadable EmptyDataError)
   \<and> load empty_file (CSV_PATH Map.empty) = Inl (ReadError EmptyDataError)
   \<and> no_payload_column (CSV_PATH Map.empty)
       = Some (Table [''Launch Site'', ''class'', ''Booster Version Category''] raw_sample)
   \<and> load no_payload_column (CSV_PATH Map.empty) = Inl (KeyError [''Payload Mass (kg)''])"
proof -
  have paths: "CSV_PATH Map.empty = ''spacex_launch_dash.csv''"
    "CSV_PATH [''SPACEX_DASH_CSV'' \<mapsto> ''other.csv''] = ''other.csv''"
    by (simp_all add: CSV_PATH_def)
  have present: "sample_files (CSV_PATH Map.empty) = Some (Table four_columns raw_sample)"
    and absent: "sample_files (CSV_PATH [''SPACEX_DASH_CSV'' \<mapsto> ''other.csv'']) = None"
    and empty: "empty_file (CSV_PATH Map.empty) = Some (Unreadable EmptyDataError)"
    and lacking: "no_payload_column (CSV_PATH Map.empty)
       = Some (Table [''Launch Site'', ''class'', ''Booster Version Category''] raw_sample)"
    by (simp_all add: paths sample_files_def empty_file_def no_payload_column_def)
  have columns: "set [''Launch Site'', ''class'', ''Payload Mass (kg)''] \<subseteq> set four_columns"
    by (simp add: four_columns_def)
  have missing: "filter (\<lambda>name. name \<notin> set [''Launch Site'', ''class'', ''Booster Version Category''])
      [''Launch Site'', ''class'', ''Payload Mass (kg)''] = [''Payload Mass (kg)'']"
    by simp
  from load_fails_iff_file_absent [of sample_files Map.empty four_columns raw_sample] present columns
  have one: "load sample_files (CSV_PATH Map.empty) = Inr sample_table"
    by (simp add: raw_sample_def sample_table_def row_def)
  from load_fails_iff_file_absent [of sample_files "[''SPACEX_DASH_CSV'' \<mapsto> ''other.csv'']"] absent
  have two: "load sample_files (CSV_PATH [''SPACEX_DASH_CSV'' \<mapsto> ''other.csv''])
       = Inl (FileNotFoundError ''other.csv'')"
    by (simp add: paths)
  from load_fails_iff_file_absent [of empty_file Map.empty _ _ EmptyDataError] empty
  have three: "load empty_file (CSV_PATH Map.empty) = Inl (ReadError EmptyDataError)"
    by simp
  from load_fails_iff_file_absent [of no_payload_column Map.empty
      "[''Launch Site'', ''class'', ''Booster Version Category'']" raw_sample] lacking
  have four: "load no_payload_column (CSV_PATH Map.empty) = Inl (KeyError [''Payload Mass (kg)''])"
    by (simp add: missing)
  from present columns one absent two empty three lacking four show ?thesis by blast
qed

text \<open>
  C7. At load time exactly the records with a missing site, outcome or payload value
  are dropped from the raw table; every other record stays, in its original order:
  the loaded table is the raw table filtered by "all three values present". (The raw
  table is one pandas has read from the file, with those three columns.)
\<close>

theorem load_drops_exactly_incomplete:
  "files path = Some (Table columns raw) \<Longrightarrow>
   set [''Launch Site'', ''class'', ''Payload Mass (kg)''] \<subseteq> set columns \<Longrightarrow>
     load files path =
       Inr (filter (\<lambda>r. Launch_Site r \<noteq> None \<and> Class r \<noteq> None \<and> Payload_Mass r \<noteq> None) raw)"
  by (rule load_present)

theorem load_drops_exactly_incomplete_witness:
  "sample_files ''spacex_launch_dash.csv'' = Some (Table four_columns raw_sample)
   \<and> set [''Launch Site'', ''class'', ''Payload Mass (kg)''] \<subseteq> set four_columns
   \<and> load sample_files ''spacex_launch_dash.csv'' =
       Inr [row ''A'' 1 500 ''v1.0'',
            row ''A'' 0 2500 ''v1.1'',
            \<lparr>Launch_Site = Some ''B'', Class = Some 1, Payload_Mass = Some 3000,
             Booster_Version_Category = None\<rparr>,
            row ''B'' 1 9600 ''B4'']"
proof -
  have present: "sample_files ''spacex_launch_dash.csv'' = Some (Table four_columns raw_sample)"
    by (simp add: sample_files_def)
  have columns: "set [''Launch Site'', ''class'', ''Payload Mass (kg)''] \<subseteq> set four_columns"
    by (simp add: four_columns_def)
  from load_drops_exactly_incomplete
      [of sample_files "''spacex_launch_dash.csv''" four_columns raw_sample] present columns
  have "load sample_files ''spacex_launch_dash.csv'' =
       Inr [row ''A'' 1 500 ''v1.0'',
            row ''A'' 0 2500 ''v1.1'',
            \<lparr>Launch_Site = Some ''B'', Class = Some 1, Payload_Mass = Some 3000,
             Booster_Version_Category = None\<rparr>,
            row ''B'' 1 9600 ''B4'']"
    by (simp add: raw_sample_def row_def)
  with present columns show ?thesis by blast
qed

text \<open>
  C8, as the spec states it: after load every record has a non-negative payload mass.
  The load step tests presence only, never the sign: a file whose one complete record
  has payload \<open>-5\<close> is accepted and the record is kept.
\<close>

theorem load_keeps_negative_payload:
  "load negative_files (CSV_PATH Map.empty) = Inr [row ''A'' 1 (- 5) ''v1.0'']
   \<and> Payload_Mass (row ''A'' 1 (- 5 :: int) ''v1.0'') = Some (- 5)
   \<and> \<not> (0 :: int) \<le> - 5"
  by (simp add: load_def os_path_exists_def read_csv_def dropna_def isna_def CSV_PATH_def
      negative_files_def four_columns_def row_def)

text \<open>
  C8, amended: after load every record has a payload mass that is present, and the
  payloads of the table are those of the complete records of the input, so they are
  all non-negative exactly when those of the input's complete records are.
\<close>

theorem load_payload_present_sign_unchecked:
  fixes files :: "('p :: {linorder, zero}) files"
  assumes "load files path = Inr t"
  shows "list_all (\<lambda>r. \<not> isna (Payload_Mass r)) t
         \<and> (\<exists>columns raw. files path = Some (Table columns raw)
              \<and> list_all (\<lambda>r. case Payload_Mass r of None \<Rightarrow> False | Some p \<Rightarrow> 0 \<le> p) t
                = list_all (\<lambda>r. isna (Launch_Site r) \<or> isna (Class r)
                     \<or> (case Payload_Mass r of None \<Rightarrow> True | Some p \<Rightarrow> 0 \<le> p)) raw)"
proof -
  from load_complete [OF assms] obtain columns raw where
    found: "files path = Some (Table columns raw)" and
    t: "t = filter (\<lambda>r. Launch_Site r \<noteq> None \<and> Class r \<noteq> None \<and> Payload_Mass r \<noteq> None) raw"
    by blast
  have present: "list_all (\<lambda>r. \<not> isna (Payload_Mass r)) t"
    unfolding t by (simp add: list_all_iff isna_def)
  have sign: "list_all (\<lambda>r. case Payload_Mass r of None \<Rightarrow> False | Some p \<Rightarrow> 0 \<le> p) t
                = list_all (\<lambda>r. isna (Launch_Site r) \<or> isna (Class r)
                     \<or> (case Payload_Mass r of None \<Rightarrow> True | Some p \<Rightarrow> 0 \<le> p)) raw"
    unfolding t by (rule nonneg_filter_complete)
  from present sign found show ?thesis by blast
qed

theorem load_payload_present_sign_unchecked_witness:
  "load sample_files ''spacex_launch_dash.csv'' =
       Inr [row ''A'' 1 500 ''v1.0'',
            row ''A'' 0 2500 ''v1.1'',
            \<lparr>Launch_Site = Some ''B'', Class = Some 1, Payload_Mass = Some 3000,
             Booster_Version_Category = None\<rparr>,
            row ''B'' 1 9600 ''B4'']
   \<and> list_all (\<lambda>r. \<not> isna (Payload_Mass r))
       [row ''A'' 1 (500 :: int) ''v1.0'',
        row ''A'' 0 2500 ''v1.1'',
        \<lparr>Launch_Site = Some ''B'', Class = Some 1, Payload_Mass = Some 3000,
         Booster_Version_Category = None\<rparr>,
        row ''B'' 1 9600 ''B4'']"
proof -
  have loaded: "load sample_files ''spacex_launch_dash.csv'' =
       Inr [row ''A'' 1 500 ''v1.0'',
            row ''A'' 0 2500 ''v1.1'',
            \<lparr>Launch_Site = Some ''B'', Class = Some 1, Payload_Mass = Some 3000,
             Booster_Version_Category = None\<rparr>,
            row ''B'' 1 9600 ''B4'']"
    by (simp add: sample_load sample_table_def)
  show ?thesis
    using loaded
      load_payload_present_sign_unchecked [of sample_files "''spacex_launch_dash.csv''"]
    by simp
qed

end
